theory Spec2Isabelle
  imports Main
begin

section \<open>Data model\<close>

text \<open>
  Timestamps are JavaScript \<open>Date\<close> values, read as milliseconds since the epoch.
  Every operation below receives the instant \<open>now\<close> at which it runs; the readings
  of \<open>new Date()\<close> and \<open>Date.now()\<close> inside one operation are that instant.
\<close>

type_synonym timestamp = int

text \<open>
  A value thrown by JavaScript code: an \<open>Error\<close> instance with its message, or some
  other thrown value (for which \<open>error instanceof Error\<close> is false).
\<close>

datatype thrown = Error string | NonError

text \<open>The JSON values that occur in request and response bodies.\<close>

datatype jsval = JUndefined | JNull | JBool bool | JNum int | JStr string

text \<open>Rows of the \<open>Permission\<close>, \<open>Role\<close>, \<open>User\<close>, \<open>Token\<close> and \<open>AuditLog\<close> tables.\<close>

record permission =
  p_roleId :: string
  p_resource :: string
  p_action :: string

record role =
  r_id :: string
  r_name :: string

record user =
  u_id :: string
  u_name :: string
  u_email :: string
  u_password :: string
  u_avatar :: "string option"
  u_status :: string
  u_roleId :: string
  u_deletedAt :: "timestamp option"
  u_lastLoginAt :: "timestamp option"
  u_lastForgotAt :: "timestamp option"

datatype token_type = access_token | refresh_token | reset_password

record token =
  t_id :: nat
  t_token :: string
  t_type :: token_type
  t_userId :: string
  t_expiresAt :: timestamp
  t_isRevoked :: bool
  t_usedAt :: "timestamp option"
  t_ipAddress :: "string option"
  t_userAgent :: "string option"

record auditLog =
  a_userId :: "string option"
  a_action :: string
  a_tableName :: string
  a_recordId :: "string option"
  a_details :: string
  a_ipAddress :: "string option"
  a_userAgent :: "string option"

text \<open>The relational store behind the Prisma client.\<close>

record db =
  users :: "user list"
  roles :: "role list"
  tokens :: "token list"
  auditLogs :: "auditLog list"

text \<open>\<open>AuthenticatedUser\<close>: the identity attached to a request as \<open>req.user\<close>.\<close>

record authenticatedUser =
  au_id :: string
  au_email :: string
  au_roleId :: string
  au_roleName :: string

section \<open>RoleService.hasPermission\<close>

text \<open>
  \<open>prisma.permission.findFirst({ where: { roleId, resource, action } }) !== null\<close>:
  the three columns are matched literally.
\<close>

definition hasPermission :: "permission list \<Rightarrow> string \<Rightarrow> string \<Rightarrow> string \<Rightarrow> bool" where
  "hasPermission perms roleId resource action =
     (find (\<lambda>p. p_roleId p = roleId \<and> p_resource p = resource \<and> p_action p = action) perms
        \<noteq> None)"

section \<open>RequirePermissionMiddleware.require\<close>

text \<open>
  The Express request as the middlewares and controllers of this development read and
  write it. Header names are the lower-case names Node stores; \<open>req_cookies\<close> and
  \<open>req_body\<close> are \<open>None\<close> while the field is undefined, and so are \<open>req_user\<close>
  and \<open>req_permissionCache\<close>.
\<close>

record request =
  req_cookies :: "(string \<times> string) list option"
  req_headers :: "(string \<times> string) list"
  req_body :: "(string \<times> jsval) list option"
  req_ip :: "string option"
  req_remoteAddress :: "string option"
  req_user :: "authenticatedUser option"
  req_permissionCache :: "(string \<rightharpoonup> bool) option"

text \<open>
  The answer written to the Express response: \<open>res.status(s).json(body)\<close>, the body
  with its fields in order. \<open>jsonError s m\<close> is \<open>res.status(s).json({ error: m })\<close>.
\<close>

record response =
  res_status :: nat
  res_json :: "(string \<times> jsval) list"

definition jsonError :: "nat \<Rightarrow> string \<Rightarrow> response" where
  "jsonError s m = \<lparr>res_status = s, res_json = [(''error'', JStr m)]\<rparr>"

text \<open>What a middleware does with the request: call \<open>next()\<close>, or answer.\<close>

datatype gate_result = Next | Respond response

text \<open>
  The role service as the gate sees it: a call that resolves to a boolean or rejects.
  A query is the triple \<open>(roleId, resource, action)\<close> handed to it.
\<close>

type_synonym query = "string \<times> string \<times> string"
type_synonym resolver = "string \<Rightarrow> string \<Rightarrow> string \<Rightarrow> thrown + bool"

definition roleService :: "permission list \<Rightarrow> resolver" where
  "roleService perms = (\<lambda>roleId resource action. Inr (hasPermission perms roleId resource action))"

definition errorMessage :: "thrown \<Rightarrow> string \<Rightarrow> string" where
  "errorMessage e dflt = (case e of Error m \<Rightarrow> m | NonError \<Rightarrow> dflt)"

definition cacheKey :: "string \<Rightarrow> string \<Rightarrow> string \<Rightarrow> string" where
  "cacheKey resource action roleId = resource @ '':'' @ action @ '':'' @ roleId"

text \<open>
  The middleware returned by \<open>require(resource, action)\<close>, run on one request. The
  result is the outcome, the request as the middleware leaves it, and the queries sent
  to the role service, in order. \<open>cacheOf req\<close> is \<open>req._permissionCache\<close> once the
  middleware has initialised it.
\<close>

definition cacheOf :: "request \<Rightarrow> string \<rightharpoonup> bool" where
  "cacheOf req = (case req_permissionCache req of None \<Rightarrow> Map.empty | Some c \<Rightarrow> c)"

definition require ::
  "resolver \<Rightarrow> string \<Rightarrow> string \<Rightarrow> request \<Rightarrow> gate_result \<times> request \<times> query list" where
  "require rs resource action req =
     (case req_user req of
        None \<Rightarrow> (Respond (jsonError 401 ''Authentication required''), req, [])
      | Some u \<Rightarrow>
          let cache = cacheOf req;
              req1 = req\<lparr>req_permissionCache := Some cache\<rparr>;
              key = cacheKey resource action (au_roleId u);
              qManage = (au_roleId u, resource, ''manage'');
              qAction = (au_roleId u, resource, action)
          in (case cache key of
                Some hit \<Rightarrow>
                  (if hit then (Next, req1, [])
                   else (Respond (jsonError 403 ''Insufficient permissions''), req1, []))
              | None \<Rightarrow>
                  (case rs (au_roleId u) resource ''manage'' of
                     Inl e \<Rightarrow>
                       (Respond (jsonError 500 (errorMessage e ''Permission check failed'')), req1,
                        [qManage])
                   | Inr hasManagePermission \<Rightarrow>
                       if hasManagePermission
                       then (Next, req1\<lparr>req_permissionCache := Some (cache(key \<mapsto> True))\<rparr>, [qManage])
                       else
                         (case rs (au_roleId u) resource action of
                            Inl e \<Rightarrow>
                              (Respond (jsonError 500 (errorMessage e ''Permission check failed'')),
                               req1, [qManage, qAction])
                          | Inr hasSpecificPermission \<Rightarrow>
                              (if hasSpecificPermission then Next
                               else Respond (jsonError 403 ''Insufficient permissions''),
                               req1\<lparr>req_permissionCache :=
                                        Some (cache(key \<mapsto> hasSpecificPermission))\<rparr>,
                               [qManage, qAction])))))"

text \<open>The allow/deny decision of a check: \<open>next()\<close> or the 403 answer.\<close>

definition decided :: "gate_result \<Rightarrow> bool" where
  "decided r = (r = Next \<or> r = Respond (jsonError 403 ''Insufficient permissions''))"

section \<open>External collaborators\<close>

text \<open>
  The libraries and the process environment the services call, taken as parameters:
  \<^item> \<open>bcryptCompare plain hashed\<close> is \<open>bcrypt.compare\<close> (\<open>None\<close> when it throws) and
    \<open>bcryptHash\<close> is \<open>bcrypt.hash\<close> at the configured cost;
  \<^item> \<open>jwtSign now payload secret expiresIn\<close> and \<open>jwtVerify now token secret\<close> are
    \<open>jwt.sign\<close> and \<open>jwt.verify\<close> at the instant \<open>now\<close> (\<open>None\<close> when \<open>jwt.verify\<close>
    throws);
  \<^item> \<open>sendMail to subject html\<close> tells whether \<open>transporter.sendMail\<close> resolved;
  \<^item> \<open>development\<close> is \<open>process.env.NODE_ENV === "development"\<close> and \<open>frontendUrl\<close>
    is \<open>process.env.FRONTEND_URL\<close> as interpolated into a string;
  \<^item> \<open>forgotPasswordTemplate\<close> renders the reset mail from the reset URL;
  \<^item> \<open>formatLocal d\<close> is \<open>dayjs(timezoneService.toLocalISOString(d, "Asia/Jakarta")).format()\<close>;
  \<^item> \<open>prismaInvalidValue\<close>, \<open>prismaMissingArgument\<close> and \<open>prismaRecordNotFound\<close> are
    the messages of the errors the Prisma client raises for a query whose value for a
    string column is neither a string nor \<open>undefined\<close>, for a \<open>create\<close> that lacks a
    required column, and for an \<open>update\<close> whose row does not exist.
\<close>

text \<open>
  The claims of a JSON web token as this service signs and reads them: the values of
  \<open>payload.id\<close>, \<open>payload.email\<close> and \<open>payload.roleId\<close>, \<open>JUndefined\<close> for a field
  the payload does not carry. \<open>jp_id payload\<close> is \<open>payload.id\<close> when
  \<open>typeof payload.id === "string"\<close>.
\<close>

record jwtPayload =
  pl_id :: jsval
  pl_email :: jsval
  pl_roleId :: jsval

definition jp_id :: "jwtPayload \<Rightarrow> string option" where
  "jp_id payload = (case pl_id payload of JStr uid \<Rightarrow> Some uid | _ \<Rightarrow> None)"

record externals =
  bcryptCompare :: "string \<Rightarrow> string \<Rightarrow> bool option"
  bcryptHash :: "string \<Rightarrow> string"
  jwtSign :: "timestamp \<Rightarrow> jwtPayload \<Rightarrow> string \<Rightarrow> int \<Rightarrow> string"
  jwtVerify :: "timestamp \<Rightarrow> string \<Rightarrow> string \<Rightarrow> jwtPayload option"
  sendMail :: "string \<Rightarrow> string \<Rightarrow> string \<Rightarrow> bool"
  development :: bool
  frontendUrl :: string
  forgotPasswordTemplate :: "string \<Rightarrow> string"
  formatLocal :: "timestamp \<Rightarrow> string"
  prismaInvalidValue :: string
  prismaMissingArgument :: string
  prismaRecordNotFound :: string

section \<open>PasswordService\<close>

definition hash :: "externals \<Rightarrow> string \<Rightarrow> thrown + string" where
  "hash ext password =
     (if password = [] then Inl (Error ''Password must be a non-empty string'')
      else if length password < 6
      then Inl (Error ''Password too weak: minimum 6 characters required'')
      else Inr (bcryptHash ext password))"

definition verify :: "externals \<Rightarrow> string \<Rightarrow> string \<Rightarrow> bool" where
  "verify ext plain hashed =
     (if plain = [] \<or> hashed = [] then False
      else (case bcryptCompare ext plain hashed of None \<Rightarrow> False | Some ok \<Rightarrow> ok))"

section \<open>TokenService\<close>

record tokenServiceConfig =
  accessTokenSecret :: string
  refreshTokenSecret :: string
  ts_accessTokenExpiresIn :: int
  ts_refreshTokenExpiresIn :: int

definition generateAccessToken ::
  "externals \<Rightarrow> tokenServiceConfig \<Rightarrow> timestamp \<Rightarrow> jwtPayload \<Rightarrow> string" where
  "generateAccessToken ext tc now payload =
     jwtSign ext now payload (accessTokenSecret tc) (ts_accessTokenExpiresIn tc)"

definition generateRefreshToken ::
  "externals \<Rightarrow> tokenServiceConfig \<Rightarrow> timestamp \<Rightarrow> jwtPayload \<Rightarrow> string" where
  "generateRefreshToken ext tc now payload =
     jwtSign ext now payload (refreshTokenSecret tc) (ts_refreshTokenExpiresIn tc)"

definition verifyToken ::
  "externals \<Rightarrow> tokenServiceConfig \<Rightarrow> timestamp \<Rightarrow> string \<Rightarrow> bool \<Rightarrow> jwtPayload option" where
  "verifyToken ext tc now tok isRefresh =
     jwtVerify ext now tok (if isRefresh then refreshTokenSecret tc else accessTokenSecret tc)"

section \<open>AuditService.log and EmailService.send\<close>

definition auditLog_create :: "auditLog \<Rightarrow> db \<Rightarrow> db" where
  "auditLog_create entry d = d\<lparr>auditLogs := auditLogs d @ [entry]\<rparr>"

definition send :: "externals \<Rightarrow> string \<Rightarrow> string \<Rightarrow> string \<Rightarrow> thrown + unit" where
  "send ext to subject html =
     (if sendMail ext to subject html then Inr ()
      else Inl (Error (''Failed to send email to '' @ to)))"

section \<open>The store's queries\<close>

text \<open>
  \<open>findUnique\<close> on users with the filters \<open>status: "ACTIVE", deletedAt: null\<close>, by
  email and by id; the role joined by \<open>include: { role: true }\<close>; a key for a new
  token row; and the conditional bulk update \<open>updateMany\<close>.
\<close>

definition findActiveUserByEmail :: "db \<Rightarrow> string \<Rightarrow> user option" where
  "findActiveUserByEmail d email =
     find (\<lambda>u. u_email u = email \<and> u_status u = ''ACTIVE'' \<and> u_deletedAt u = None) (users d)"

definition findActiveUserById :: "db \<Rightarrow> string \<Rightarrow> user option" where
  "findActiveUserById d uid =
     find (\<lambda>u. u_id u = uid \<and> u_status u = ''ACTIVE'' \<and> u_deletedAt u = None) (users d)"

definition roleOf :: "db \<Rightarrow> user \<Rightarrow> role option" where
  "roleOf d u = find (\<lambda>r. r_id r = u_roleId u) (roles d)"

fun nextId :: "token list \<Rightarrow> nat" where
  "nextId [] = 0"
| "nextId (t # ts) = max (Suc (t_id t)) (nextId ts)"

definition token_create :: "token \<Rightarrow> db \<Rightarrow> db" where
  "token_create row d = d\<lparr>tokens := tokens d @ [row\<lparr>t_id := nextId (tokens d)\<rparr>]\<rparr>"

definition token_updateMany :: "(token \<Rightarrow> bool) \<Rightarrow> (token \<Rightarrow> token) \<Rightarrow> db \<Rightarrow> db" where
  "token_updateMany cond upd d = d\<lparr>tokens := map (\<lambda>t. if cond t then upd t else t) (tokens d)\<rparr>"

definition user_update :: "string \<Rightarrow> (user \<Rightarrow> user) \<Rightarrow> db \<Rightarrow> db" where
  "user_update uid upd d = d\<lparr>users := map (\<lambda>u. if u_id u = uid then upd u else u) (users d)\<rparr>"

definition revoke :: "token \<Rightarrow> token" where
  "revoke t = t\<lparr>t_isRevoked := True\<rparr>"

text \<open>\<open>value || null\<close> on an optional string: the empty string is falsy.\<close>

definition orNull :: "string option \<Rightarrow> string option" where
  "orNull v = (case v of None \<Rightarrow> None | Some s \<Rightarrow> if s = [] then None else Some s)"

section \<open>AuthService\<close>

record authServiceConfig =
  accessTokenExpiresIn :: int
  refreshTokenExpiresIn :: int
  forgotPasswordCooldown :: int
  resetTokenExpiresIn :: int

record loginUser =
  lu_id :: string
  lu_name :: string
  lu_email :: string
  lu_avatar :: string
  lu_roleId :: string
  lu_roleName :: string

record loginResult =
  lr_accessToken :: string
  lr_refreshToken :: string
  lr_user :: loginUser

text \<open>
  Every operation returns its outcome (\<open>Inl\<close> the thrown value) and the store as it
  leaves it: a write made before a throw stays written.
\<close>

definition login ::
  "externals \<Rightarrow> tokenServiceConfig \<Rightarrow> authServiceConfig \<Rightarrow> timestamp \<Rightarrow> db \<Rightarrow>
   string \<Rightarrow> string \<Rightarrow> string option \<Rightarrow> string option \<Rightarrow> (thrown + loginResult) \<times> db" where
  "login ext tc cfg now d email password ipAddress userAgent =
     (case findActiveUserByEmail d email of
        None \<Rightarrow> (Inl (Error ''Invalid email or password''), d)
      | Some user \<Rightarrow>
          if \<not> verify ext password (u_password user)
          then (Inl (Error ''Invalid email or password''), d)
          else
            let d1 = user_update (u_id user) (\<lambda>u. u\<lparr>u_lastLoginAt := Some now\<rparr>) d;
                avatarUrl = (case orNull (u_avatar user) of
                               None \<Rightarrow> ''/uploads/avatars/default-avatar.png''
                             | Some a \<Rightarrow> a);
                payload = \<lparr>pl_id = JStr (u_id user), pl_email = JStr (u_email user),
                           pl_roleId = JStr (u_roleId user)\<rparr>;
                accessToken = generateAccessToken ext tc now payload;
                refreshToken = generateRefreshToken ext tc now payload;
                d2 = token_create
                       \<lparr>t_id = 0, t_token = accessToken, t_type = access_token,
                        t_userId = u_id user, t_expiresAt = now + accessTokenExpiresIn cfg,
                        t_isRevoked = False, t_usedAt = None, t_ipAddress = None,
                        t_userAgent = None\<rparr> d1;
                d3 = token_create
                       \<lparr>t_id = 0, t_token = refreshToken, t_type = refresh_token,
                        t_userId = u_id user, t_expiresAt = now + refreshTokenExpiresIn cfg,
                        t_isRevoked = False, t_usedAt = None, t_ipAddress = None,
                        t_userAgent = None\<rparr> d2;
                d4 = auditLog_create
                       \<lparr>a_userId = Some (u_id user), a_action = ''LOGIN'', a_tableName = ''User'',
                        a_recordId = Some (u_id user), a_details = ''User logged in successfully'',
                        a_ipAddress = ipAddress, a_userAgent = userAgent\<rparr> d3
            in (case roleOf d user of
                  None \<Rightarrow> (Inl (Error ''Cannot read properties of null (reading 'id')''), d4)
                | Some r \<Rightarrow>
                    (Inr \<lparr>lr_accessToken = accessToken, lr_refreshToken = refreshToken,
                          lr_user = \<lparr>lu_id = u_id user, lu_name = u_name user,
                                     lu_email = u_email user, lu_avatar = avatarUrl,
                                     lu_roleId = r_id r, lu_roleName = r_name r\<rparr>\<rparr>, d4)))"

definition validateAccessToken ::
  "externals \<Rightarrow> tokenServiceConfig \<Rightarrow> timestamp \<Rightarrow> db \<Rightarrow> string \<Rightarrow> thrown + authenticatedUser" where
  "validateAccessToken ext tc now d tok =
     (case verifyToken ext tc now tok False of
        None \<Rightarrow> Inl (Error ''Invalid or expired access token'')
      | Some payload \<Rightarrow>
          (case jp_id payload of
             None \<Rightarrow> Inl (Error ''Invalid token payload'')
           | Some uid \<Rightarrow>
               (case find (\<lambda>t. t_token t = tok \<and> t_type t = access_token \<and> \<not> t_isRevoked t
                                 \<and> now < t_expiresAt t) (tokens d) of
                  None \<Rightarrow> Inl (Error ''Invalid or revoked access token'')
                | Some tokenRecord \<Rightarrow>
                    (case findActiveUserById d uid of
                       None \<Rightarrow> Inl (Error ''User not found or inactive'')
                     | Some user \<Rightarrow>
                         (case roleOf d user of
                            None \<Rightarrow> Inl (Error ''User not found or inactive'')
                          | Some r \<Rightarrow>
                              Inr \<lparr>au_id = u_id user, au_email = u_email user,
                                   au_roleId = u_roleId user, au_roleName = r_name r\<rparr>)))))"

text \<open>
  In \<open>refreshAccessToken\<close> the decoded \<open>payload.id\<close> goes into the queries unchecked.
  The Prisma client rejects a query whose value for \<open>userId\<close> is present and not a
  string (\<open>rejectedValue\<close>), leaves a filter whose value is \<open>undefined\<close> out of a
  \<open>where\<close> clause (\<open>ownedBy\<close>), and rejects a \<open>create\<close> whose required \<open>userId\<close> is
  \<open>undefined\<close>.
\<close>

definition rejectedValue :: "jsval \<Rightarrow> bool" where
  "rejectedValue v = (case v of JUndefined \<Rightarrow> False | JStr s \<Rightarrow> False | _ \<Rightarrow> True)"

definition ownedBy :: "jsval \<Rightarrow> token \<Rightarrow> bool" where
  "ownedBy pid t = (case pid of JStr uid \<Rightarrow> t_userId t = uid | _ \<Rightarrow> True)"

definition refreshAccessToken ::
  "externals \<Rightarrow> tokenServiceConfig \<Rightarrow> authServiceConfig \<Rightarrow> timestamp \<Rightarrow> db \<Rightarrow>
   string \<Rightarrow> string option \<Rightarrow> string option \<Rightarrow> (thrown + string) \<times> db" where
  "refreshAccessToken ext tc cfg now d refreshToken ipAddress userAgent =
     (case verifyToken ext tc now refreshToken True of
        None \<Rightarrow> (Inl (Error ''Invalid or expired refresh token''), d)
      | Some payload \<Rightarrow>
          if rejectedValue (pl_id payload) then (Inl (Error (prismaInvalidValue ext)), d)
          else
            (case find (\<lambda>t. t_token t = refreshToken \<and> ownedBy (pl_id payload) t
                              \<and> t_type t = refresh_token \<and> \<not> t_isRevoked t
                              \<and> now < t_expiresAt t) (tokens d) of
               None \<Rightarrow> (Inl (Error ''Refresh token not found or already revoked''), d)
             | Some refreshTokenRecord \<Rightarrow>
                 let d1 = token_updateMany
                            (\<lambda>t. ownedBy (pl_id payload) t \<and> t_type t = access_token
                                  \<and> \<not> t_isRevoked t) revoke d;
                     newAccessToken = generateAccessToken ext tc now
                            \<lparr>pl_id = pl_id payload, pl_email = pl_email payload,
                             pl_roleId = pl_roleId payload\<rparr>
                 in (case jp_id payload of
                       None \<Rightarrow> (Inl (Error (prismaMissingArgument ext)), d1)
                     | Some uid \<Rightarrow>
                         (Inr newAccessToken,
                          token_create
                            \<lparr>t_id = 0, t_token = newAccessToken, t_type = access_token,
                             t_userId = uid, t_expiresAt = now + accessTokenExpiresIn cfg,
                             t_isRevoked = False, t_usedAt = None,
                             t_ipAddress = orNull ipAddress, t_userAgent = orNull userAgent\<rparr>
                            d1))))"

definition logout ::
  "db \<Rightarrow> string \<Rightarrow> string option \<Rightarrow> string option \<Rightarrow> (thrown + unit) \<times> db" where
  "logout d refreshToken ipAddress userAgent =
     (case find (\<lambda>t. t_token t = refreshToken \<and> t_type t = refresh_token \<and> \<not> t_isRevoked t)
             (tokens d) of
        None \<Rightarrow> (Inl (Error ''Invalid refresh token''), d)
      | Some tokenRecord \<Rightarrow>
          let d1 = token_updateMany
                     (\<lambda>t. t_userId t = t_userId tokenRecord \<and> \<not> t_isRevoked t) revoke d;
              d2 = auditLog_create
                     \<lparr>a_userId = Some (t_userId tokenRecord), a_action = ''LOGOUT'',
                      a_tableName = ''User'', a_recordId = Some (t_userId tokenRecord),
                      a_details = ''User logged out'',
                      a_ipAddress = ipAddress, a_userAgent = userAgent\<rparr> d1
          in (Inr (), d2))"

record forgotResult =
  active :: bool
  activeDate :: "string option"

text \<open>\<open>uuid\<close> is the value \<open>uuidv4()\<close> returns in this run.\<close>

definition forgotPassword ::
  "externals \<Rightarrow> authServiceConfig \<Rightarrow> timestamp \<Rightarrow> string \<Rightarrow> db \<Rightarrow>
   string \<Rightarrow> string option \<Rightarrow> string option \<Rightarrow> (thrown + forgotResult) \<times> db" where
  "forgotPassword ext cfg now uuid d email ipAddress userAgent =
     (case findActiveUserByEmail d email of
        None \<Rightarrow>
          (Inr \<lparr>active = False, activeDate = None\<rparr>,
           auditLog_create
             \<lparr>a_userId = None, a_action = ''FORGOT_PASSWORD_ATTEMPT'', a_tableName = ''User'',
              a_recordId = None, a_details = ''Attempt for non-existent email: '' @ email,
              a_ipAddress = ipAddress, a_userAgent = userAgent\<rparr> d)
      | Some user \<Rightarrow>
          let cooldownEnd = (case u_lastForgotAt user of
                               None \<Rightarrow> None
                             | Some l \<Rightarrow> Some (l + forgotPasswordCooldown cfg))
          in (case (case cooldownEnd of
                      None \<Rightarrow> None
                    | Some ce \<Rightarrow> if now < ce then Some ce else None) of
                Some ce \<Rightarrow> (Inr \<lparr>active = True, activeDate = Some (formatLocal ext ce)\<rparr>, d)
              | None \<Rightarrow>
                  let resetToken = uuid;
                      expiresAt = now + resetTokenExpiresIn cfg;
                      d1 = token_create
                             \<lparr>t_id = 0, t_token = resetToken, t_type = reset_password,
                              t_userId = u_id user, t_expiresAt = expiresAt,
                              t_isRevoked = False, t_usedAt = None,
                              t_ipAddress = ipAddress, t_userAgent = userAgent\<rparr> d;
                      d2 = user_update (u_id user) (\<lambda>u. u\<lparr>u_lastForgotAt := Some now\<rparr>) d1;
                      d3 = auditLog_create
                             \<lparr>a_userId = Some (u_id user), a_action = ''FORGOT_PASSWORD'',
                              a_tableName = ''Token'', a_recordId = Some resetToken,
                              a_details = ''Password reset token generated'',
                              a_ipAddress = ipAddress, a_userAgent = userAgent\<rparr> d2;
                      resetLink = frontendUrl ext @ ''/reset-password?token='' @ resetToken
                  in if development ext then (Inr \<lparr>active = False, activeDate = None\<rparr>, d3)
                     else
                       (case send ext email ''Reset Password Request''
                               (forgotPasswordTemplate ext resetLink) of
                          Inl e \<Rightarrow> (Inl e, d3)
                        | Inr _ \<Rightarrow> (Inr \<lparr>active = False, activeDate = None\<rparr>, d3))))"

text \<open>
  \<open>resetPassword\<close> suspends at each \<open>await\<close>. Its ledger lookup
  (\<open>resetPassword_findFirst\<close>) is one step on the store; hashing the password and the
  three writes (\<open>resetPassword_writes\<close>, on the row the lookup returned) come later,
  on the store as it is by then. The three writes run under \<open>Promise.all\<close>: all three
  are issued, and the call rejects when the user row to update does not exist.
  \<open>resetPassword\<close> is the call with nothing running between its steps.
\<close>

definition resetPassword_findFirst :: "timestamp \<Rightarrow> db \<Rightarrow> string \<Rightarrow> token option" where
  "resetPassword_findFirst now d tok =
     find (\<lambda>t. t_token t = tok \<and> t_type t = reset_password \<and> \<not> t_isRevoked t
                \<and> t_usedAt t = None \<and> now < t_expiresAt t) (tokens d)"

definition resetPassword_writes ::
  "externals \<Rightarrow> timestamp \<Rightarrow> db \<Rightarrow> token \<Rightarrow> string \<Rightarrow> string option \<Rightarrow> string option \<Rightarrow>
   (thrown + unit) \<times> db" where
  "resetPassword_writes ext now d tokenRecord newPassword ipAddress userAgent =
     (case hash ext newPassword of
        Inl e \<Rightarrow> (Inl e, d)
      | Inr hashedPassword \<Rightarrow>
          let d1 = user_update (t_userId tokenRecord)
                     (\<lambda>u. u\<lparr>u_password := hashedPassword\<rparr>) d;
              d2 = token_updateMany (\<lambda>t. t_id t = t_id tokenRecord)
                     (\<lambda>t. t\<lparr>t_usedAt := Some now, t_isRevoked := True\<rparr>) d1;
              d3 = token_updateMany
                     (\<lambda>t. t_userId t = t_userId tokenRecord
                           \<and> (t_type t = refresh_token \<or> t_type t = access_token))
                     revoke d2
          in if find (\<lambda>u. u_id u = t_userId tokenRecord) (users d) = None
             then (Inl (Error (prismaRecordNotFound ext)), d3)
             else
               (Inr (),
                auditLog_create
                  \<lparr>a_userId = Some (t_userId tokenRecord), a_action = ''RESET_PASSWORD'',
                   a_tableName = ''User'', a_recordId = Some (t_userId tokenRecord),
                   a_details = ''Password successfully reset'',
                   a_ipAddress = ipAddress, a_userAgent = userAgent\<rparr> d3))"

definition resetPassword ::
  "externals \<Rightarrow> timestamp \<Rightarrow> db \<Rightarrow> string \<Rightarrow> string \<Rightarrow> string option \<Rightarrow> string option \<Rightarrow>
   (thrown + unit) \<times> db" where
  "resetPassword ext now d tok newPassword ipAddress userAgent =
     (case resetPassword_findFirst now d tok of
        None \<Rightarrow> (Inl (Error ''Invalid or expired reset token''), d)
      | Some tokenRecord \<Rightarrow>
          resetPassword_writes ext now d tokenRecord newPassword ipAddress userAgent)"

section \<open>HttpHelperService\<close>

definition getClientIp :: "request \<Rightarrow> string" where
  "getClientIp req =
     (case orNull (req_ip req) of
        Some ip \<Rightarrow> ip
      | None \<Rightarrow>
          (case orNull (req_remoteAddress req) of
             Some a \<Rightarrow> a
           | None \<Rightarrow>
               (case orNull (map_of (req_headers req) ''x-forwarded-for'') of
                  Some f \<Rightarrow> f
                | None \<Rightarrow> [])))"

definition handleError :: "thrown \<Rightarrow> string \<Rightarrow> nat \<Rightarrow> response" where
  "handleError e defaultMessage statusCode = jsonError statusCode (errorMessage e defaultMessage)"

section \<open>AuthMiddleware.authenticate\<close>

text \<open>
  \<open>String.prototype.trim\<close> on a string of one-byte characters: it strips tab, line
  feed, vertical tab, form feed, carriage return, space and the no-break space U+00A0.
\<close>

definition isSpace :: "char \<Rightarrow> bool" where
  "isSpace c =
     (c \<in> set [CHR 0x09, CHR 0x0A, CHR 0x0B, CHR 0x0C, CHR 0x0D, CHR '' '', CHR 0xA0])"

definition trim :: "string \<Rightarrow> string" where
  "trim s = rev (dropWhile isSpace (rev (dropWhile isSpace s)))"

definition extractToken :: "request \<Rightarrow> string option" where
  "extractToken req =
     (case (case req_cookies req of
              None \<Rightarrow> None
            | Some cs \<Rightarrow> orNull (map_of cs ''access_token'')) of
        Some t \<Rightarrow> Some t
      | None \<Rightarrow>
          (case map_of (req_headers req) ''authorization'' of
             None \<Rightarrow> None
           | Some authHeader \<Rightarrow>
               if take 7 authHeader = ''Bearer '' then Some (trim (drop 7 authHeader))
               else None))"

text \<open>
  The middleware, with \<open>authService.validateAccessToken\<close> as the parameter
  \<open>validate\<close>. The result is the outcome and the request as the middleware leaves it.
\<close>

definition authenticate ::
  "(string \<Rightarrow> thrown + authenticatedUser) \<Rightarrow> request \<Rightarrow> gate_result \<times> request" where
  "authenticate validate req =
     (case orNull (extractToken req) of
        None \<Rightarrow> (Respond (jsonError 401 ''Access token required''), req)
      | Some tok \<Rightarrow>
          (case validate tok of
             Inl e \<Rightarrow> (Respond (jsonError 401 (errorMessage e ''Authentication failed'')), req)
           | Inr user \<Rightarrow> (Next, req\<lparr>req_user := Some user\<rparr>)))"

section \<open>AuthController.forgotPassword\<close>

definition uniformMessage :: string where
  "uniformMessage = ''If your email is registered, you will receive a password reset link.''"

text \<open>
  The handler, with \<open>authService.forgotPassword\<close> as the parameter \<open>svc\<close>, a call on
  a store of any kind that returns its outcome and the store as it leaves it.
  Destructuring an undefined \<open>req.body\<close> throws inside the \<open>try\<close> block.
\<close>

definition forgotPasswordHandler ::
  "(string \<Rightarrow> string option \<Rightarrow> string option \<Rightarrow> 's \<Rightarrow> (thrown + forgotResult) \<times> 's) \<Rightarrow>
   's \<Rightarrow> request \<Rightarrow> response \<times> 's" where
  "forgotPasswordHandler svc st req =
     (case req_body req of
        None \<Rightarrow>
          (\<lparr>res_status = 200,
            res_json = [(''active'', JBool False), (''message'', JStr uniformMessage)]\<rparr>, st)
      | Some body \<Rightarrow>
          (case map_of body ''email'' of
             Some (JStr email) \<Rightarrow>
               if email = [] then (jsonError 400 ''Email is required'', st)
               else
                 let ipAddress = getClientIp req;
                     userAgent = (case orNull (map_of (req_headers req) ''user-agent'') of
                                    None \<Rightarrow> []
                                  | Some ua \<Rightarrow> ua)
                 in (case svc email (Some ipAddress) (Some userAgent) st of
                       (Inr cooldownStatus, st') \<Rightarrow>
                         (\<lparr>res_status = 200,
                           res_json =
                             [(''active'', JBool (active cooldownStatus))]
                             @ (case activeDate cooldownStatus of
                                  None \<Rightarrow> []
                                | Some a \<Rightarrow> [(''activeDate'', JStr a)])
                             @ [(''message'', JStr uniformMessage)]\<rparr>, st')
                     | (Inl e, st') \<Rightarrow>
                         (\<lparr>res_status = 200,
                           res_json = [(''active'', JBool False),
                                       (''message'', JStr uniformMessage)]\<rparr>, st'))
           | _ \<Rightarrow> (jsonError 400 ''Email is required'', st)))"

section \<open>Example data\<close>

text \<open>
  A small installation used to run the definitions on concrete inputs: the active users
  \<open>u1\<close> and \<open>u2\<close> with role \<open>r1\<close>, a mail transport that fails for the address of
  \<open>u2\<close>, five ledger rows (the access token \<open>acc0\<close> revoked), and
  a token codec that accepts the access tokens \<open>acc0\<close>, \<open>acc1\<close> and \<open>anon\<close> (the last
  with a payload that carries no id) and the refresh token \<open>ref1\<close>, whatever the instant.
\<close>

definition exTc :: tokenServiceConfig where
  "exTc = \<lparr>accessTokenSecret = ''sa'', refreshTokenSecret = ''sr'',
            ts_accessTokenExpiresIn = 900000, ts_refreshTokenExpiresIn = 86400000\<rparr>"

definition exCfg :: authServiceConfig where
  "exCfg = \<lparr>accessTokenExpiresIn = 900000, refreshTokenExpiresIn = 86400000,
             forgotPasswordCooldown = 120000, resetTokenExpiresIn = 120000\<rparr>"

definition exPayload :: jwtPayload where
  "exPayload = \<lparr>pl_id = JStr ''u1'', pl_email = JStr ''ann@x.io'', pl_roleId = JStr ''r1''\<rparr>"

definition exExt :: externals where
  "exExt = \<lparr>bcryptCompare = (\<lambda>plain hashed. Some (hashed = ''#'' @ plain)),
             bcryptHash = (\<lambda>plain. ''#'' @ plain),
             jwtSign = (\<lambda>now payload secret expiresIn. if secret = ''sa'' then ''acc2'' else ''ref2''),
             jwtVerify = (\<lambda>now tok secret.
                if secret = ''sa'' \<and> (tok = ''acc0'' \<or> tok = ''acc1'') then Some exPayload
                else if secret = ''sa'' \<and> tok = ''anon''
                then Some \<lparr>pl_id = JUndefined, pl_email = JUndefined, pl_roleId = JUndefined\<rparr>
                else if secret = ''sr'' \<and> tok = ''ref1'' then Some exPayload
                else None),
             sendMail = (\<lambda>to subject html. to \<noteq> ''bob@x.io''),
             development = False,
             frontendUrl = ''https://fe'',
             forgotPasswordTemplate = (\<lambda>url. url),
             formatLocal = (\<lambda>t. ''local''),
             prismaInvalidValue = ''Invalid value provided'',
             prismaMissingArgument = ''Argument userId is missing'',
             prismaRecordNotFound = ''Record to update not found''\<rparr>"

definition exUser :: user where
  "exUser = \<lparr>u_id = ''u1'', u_name = ''Ann'', u_email = ''ann@x.io'', u_password = ''#secret1'',
              u_avatar = None, u_status = ''ACTIVE'', u_roleId = ''r1'', u_deletedAt = None,
              u_lastLoginAt = None, u_lastForgotAt = Some 1000\<rparr>"

definition exBob :: user where
  "exBob = \<lparr>u_id = ''u2'', u_name = ''Bob'', u_email = ''bob@x.io'', u_password = ''#secret2'',
             u_avatar = None, u_status = ''ACTIVE'', u_roleId = ''r1'', u_deletedAt = None,
             u_lastLoginAt = None, u_lastForgotAt = None\<rparr>"

definition exToken :: "nat \<Rightarrow> string \<Rightarrow> token_type \<Rightarrow> timestamp \<Rightarrow> token" where
  "exToken i s ty e = \<lparr>t_id = i, t_token = s, t_type = ty, t_userId = ''u1'', t_expiresAt = e,
                        t_isRevoked = False, t_usedAt = None, t_ipAddress = None,
                        t_userAgent = None\<rparr>"

definition exDb :: db where
  "exDb = \<lparr>users = [exUser, exBob], roles = [\<lparr>r_id = ''r1'', r_name = ''Admin''\<rparr>],
            tokens = [(exToken 0 ''acc0'' access_token 5000)\<lparr>t_isRevoked := True\<rparr>,
                      exToken 1 ''acc1'' access_token 5000,
                      exToken 2 ''ref1'' refresh_token 9000,
                      exToken 3 ''rst1'' reset_password 5000,
                      exToken 4 ''anon'' access_token 5000],
            auditLogs = []\<rparr>"

definition exRequest :: "string \<Rightarrow> request" where
  "exRequest tok = \<lparr>req_cookies = None, req_headers = [(''authorization'', ''Bearer '' @ tok)],
                    req_body = None, req_ip = None, req_remoteAddress = None,
                    req_user = None, req_permissionCache = None\<rparr>"

definition exPerms :: "permission list" where
  "exPerms = [\<lparr>p_roleId = ''r1'', p_resource = ''client'', p_action = ''read''\<rparr>,
              \<lparr>p_roleId = ''r2'', p_resource = ''client'', p_action = ''manage''\<rparr>]"

definition exIdentity :: "string \<Rightarrow> authenticatedUser" where
  "exIdentity rid = \<lparr>au_id = ''u1'', au_email = ''ann@x.io'', au_roleId = rid,
                      au_roleName = ''Admin''\<rparr>"

definition exAuthRequest :: "string \<Rightarrow> request" where
  "exAuthRequest rid = \<lparr>req_cookies = None, req_headers = [], req_body = None, req_ip = None,
                         req_remoteAddress = None, req_user = Some (exIdentity rid),
                         req_permissionCache = None\<rparr>"

definition exForgotRequest :: "string \<Rightarrow> request" where
  "exForgotRequest email = \<lparr>req_cookies = None, req_headers = [(''user-agent'', ''curl'')],
                             req_body = Some [(''email'', JStr email)], req_ip = Some ''10.0.0.7'',
                             req_remoteAddress = None, req_user = None,
                             req_permissionCache = None\<rparr>"

lemmas ex_defs = exTc_def exCfg_def exPayload_def exExt_def exUser_def exBob_def exToken_def
  exDb_def exRequest_def exPerms_def exIdentity_def exAuthRequest_def exForgotRequest_def

section \<open>The permission resolver and the permission gate\<close>

lemma find_None_Bex: "(find P xs \<noteq> None) = (\<exists>x\<in>set xs. P x)"
  by (auto simp: find_None_iff)

lemma hasPermission_iff:
  "hasPermission perms roleId resource action =
     (\<exists>p\<in>set perms. p_roleId p = roleId \<and> p_resource p = resource \<and> p_action p = action)"
  unfolding hasPermission_def by (rule find_None_Bex)

lemma require_noUser:
  "req_user req = None \<Longrightarrow>
   require rs resource action req = (Respond (jsonError 401 ''Authentication required''), req, [])"
  by (simp add: require_def)

lemma require_cached:
  "req_user req = Some u \<Longrightarrow> cacheOf req (cacheKey resource action (au_roleId u)) = Some hit \<Longrightarrow>
   require rs resource action req =
     (if hit then Next else Respond (jsonError 403 ''Insufficient permissions''),
      req\<lparr>req_permissionCache := Some (cacheOf req)\<rparr>, [])"
  by (simp add: require_def Let_def)

lemma require_uncached:
  "req_user req = Some u \<Longrightarrow> cacheOf req (cacheKey resource action (au_roleId u)) = None \<Longrightarrow>
   require rs resource action req =
     (case rs (au_roleId u) resource ''manage'' of
        Inl e \<Rightarrow> (Respond (jsonError 500 (errorMessage e ''Permission check failed'')),
                  req\<lparr>req_permissionCache := Some (cacheOf req)\<rparr>,
                  [(au_roleId u, resource, ''manage'')])
      | Inr m \<Rightarrow>
          if m then (Next,
                     req\<lparr>req_permissionCache :=
                           Some ((cacheOf req)(cacheKey resource action (au_roleId u) \<mapsto> True))\<rparr>,
                     [(au_roleId u, resource, ''manage'')])
          else (case rs (au_roleId u) resource action of
                  Inl e \<Rightarrow> (Respond (jsonError 500 (errorMessage e ''Permission check failed'')),
                            req\<lparr>req_permissionCache := Some (cacheOf req)\<rparr>,
                            [(au_roleId u, resource, ''manage''), (au_roleId u, resource, action)])
                | Inr b \<Rightarrow>
                    (if b then Next else Respond (jsonError 403 ''Insufficient permissions''),
                     req\<lparr>req_permissionCache :=
                           Some ((cacheOf req)(cacheKey resource action (au_roleId u) \<mapsto> b))\<rparr>,
                     [(au_roleId u, resource, ''manage''), (au_roleId u, resource, action)])))"
  by (simp add: require_def Let_def split: sum.splits)

lemma cacheOf_upd [simp]: "cacheOf (req\<lparr>req_permissionCache := Some c\<rparr>) = c"
  by (simp add: cacheOf_def)

lemma not_decided_401 [simp]: "\<not> decided (Respond (jsonError 401 m))"
  by (simp add: decided_def jsonError_def)

lemma not_decided_500 [simp]: "\<not> decided (Respond (jsonError 500 m))"
  by (simp add: decided_def jsonError_def)

lemma require_miss:
  assumes u: "req_user req = Some u"
    and miss: "cacheOf req (cacheKey resource action (au_roleId u)) = None"
  shows "fst (require (roleService perms) resource action req) =
         (if hasPermission perms (au_roleId u) resource ''manage''
             \<or> hasPermission perms (au_roleId u) resource action
          then Next else Respond (jsonError 403 ''Insufficient permissions''))"
  by (simp add: require_uncached [OF u miss] roleService_def)

lemma require_hit:
  assumes 1: "require rs resource action req = (r1, req1, qs1)" and d: "decided r1"
  shows "require rs' resource action req1 = (r1, req1, [])"
proof (cases "req_user req")
  case None
  with 1 d show ?thesis by (simp add: require_noUser)
next
  case (Some u)
  let ?k = "cacheKey resource action (au_roleId u)"
  show ?thesis
  proof (cases "cacheOf req ?k")
    case (Some hit)
    from 1 have r: "r1 = (if hit then Next else Respond (jsonError 403 ''Insufficient permissions''))"
      and q: "req1 = req\<lparr>req_permissionCache := Some (cacheOf req)\<rparr>"
      by (simp_all add: require_cached [OF \<open>req_user req = Some u\<close> Some])
    have u1: "req_user req1 = Some u" using q \<open>req_user req = Some u\<close> by simp
    have c1: "cacheOf req1 ?k = Some hit" using q Some by simp
    show ?thesis
      by (simp add: require_cached [OF u1 c1] r) (simp add: q)
  next
    case None
    note unc = require_uncached [OF \<open>req_user req = Some u\<close> None, of rs]
    show ?thesis
    proof (cases "rs (au_roleId u) resource ''manage''")
      case (Inl e)
      with 1 d unc show ?thesis by auto
    next
      case (Inr m)
      show ?thesis
      proof (cases m)
        case True
        from 1 unc Inr True have r: "r1 = Next"
          and q: "req1 = req\<lparr>req_permissionCache := Some ((cacheOf req)(?k \<mapsto> True))\<rparr>"
          by simp_all
        have u1: "req_user req1 = Some u" using q \<open>req_user req = Some u\<close> by simp
        have c1: "cacheOf req1 ?k = Some True" using q by simp
        show ?thesis
          by (simp add: require_cached [OF u1 c1] r) (simp add: q)
      next
        case False
        show ?thesis
        proof (cases "rs (au_roleId u) resource action")
          case (Inl e)
          with 1 d unc \<open>rs (au_roleId u) resource ''manage'' = Inr m\<close> False show ?thesis by auto
        next
          case (Inr b)
          from 1 unc \<open>rs (au_roleId u) resource ''manage'' = Inr m\<close> False Inr
          have r: "r1 = (if b then Next else Respond (jsonError 403 ''Insufficient permissions''))"
            and q: "req1 = req\<lparr>req_permissionCache := Some ((cacheOf req)(?k \<mapsto> b))\<rparr>"
            by simp_all
          have u1: "req_user req1 = Some u" using q \<open>req_user req = Some u\<close> by simp
          have c1: "cacheOf req1 ?k = Some b" using q by simp
          show ?thesis
            by (simp add: require_cached [OF u1 c1] r) (simp add: q)
        qed
      qed
    qed
  qed
qed

lemma cacheKey_action_inj:
  "cacheKey resource a1 roleId = cacheKey resource a2 roleId \<Longrightarrow> a1 = a2"
  by (simp add: cacheKey_def)

text \<open>What a check leaves in the cache: at most the entry of its own key.\<close>

lemma require_frame:
  assumes 1: "require rs resource action req = (r1, req1, qs1)"
    and u: "req_user req = Some u"
    and k: "k \<noteq> cacheKey resource action (au_roleId u)"
  shows "req_user req1 = Some u \<and> cacheOf req1 k = cacheOf req k"
proof (cases "cacheOf req (cacheKey resource action (au_roleId u))")
  case (Some hit)
  from 1 u show ?thesis by (auto simp add: require_cached [OF u Some])
next
  case None
  from 1 k u show ?thesis
    by (auto simp add: require_uncached [OF u None] split: sum.splits if_splits)
qed

lemma require_initialised:
  assumes 1: "require rs resource action req = (r1, req1, qs1)"
    and u: "req_user req = Some u"
  shows "req_permissionCache req1 = Some (cacheOf req1)"
proof (cases "cacheOf req (cacheKey resource action (au_roleId u))")
  case (Some hit)
  from 1 show ?thesis by (auto simp add: require_cached [OF u Some])
next
  case None
  from 1 show ?thesis
    by (auto simp add: require_uncached [OF u None] split: sum.splits if_splits)
qed

lemma require_other_action:
  assumes 1: "require rs resource action req = (r1, req1, qs1)"
    and u: "req_user req = Some u" and ne: "action' \<noteq> action"
    and miss: "cacheOf req (cacheKey resource action' (au_roleId u)) = None"
  shows "require rs' resource action' req1 =
     (case rs' (au_roleId u) resource ''manage'' of
        Inl e \<Rightarrow> (Respond (jsonError 500 (errorMessage e ''Permission check failed'')), req1,
                  [(au_roleId u, resource, ''manage'')])
      | Inr m \<Rightarrow>
          if m then (Next,
                     req1\<lparr>req_permissionCache :=
                            Some ((cacheOf req1)(cacheKey resource action' (au_roleId u) \<mapsto> True))\<rparr>,
                     [(au_roleId u, resource, ''manage'')])
          else (case rs' (au_roleId u) resource action' of
                  Inl e \<Rightarrow> (Respond (jsonError 500 (errorMessage e ''Permission check failed'')),
                            req1,
                            [(au_roleId u, resource, ''manage''), (au_roleId u, resource, action')])
                | Inr b \<Rightarrow>
                    (if b then Next else Respond (jsonError 403 ''Insufficient permissions''),
                     req1\<lparr>req_permissionCache :=
                            Some ((cacheOf req1)(cacheKey resource action' (au_roleId u) \<mapsto> b))\<rparr>,
                     [(au_roleId u, resource, ''manage''), (au_roleId u, resource, action')])))"
proof -
  have "cacheKey resource action' (au_roleId u) \<noteq> cacheKey resource action (au_roleId u)"
    using ne cacheKey_action_inj by blast
  from require_frame [OF 1 u this] miss
  have u1: "req_user req1 = Some u"
    and c1: "cacheOf req1 (cacheKey resource action' (au_roleId u)) = None"
    by simp_all
  from require_initialised [OF 1 u]
  have same: "req1\<lparr>req_permissionCache := Some (cacheOf req1)\<rparr> = req1"
    by (simp add: require_initialised [OF 1 u, symmetric])
  show ?thesis
    by (simp only: require_uncached [OF u1 c1] same)
qed

text \<open>
  C1, as the code has it. \<open>RoleService.hasPermission\<close> is true exactly when a
  permission row with that very role, resource and action exists; it does not look at
  \<open>manage\<close> rows. The wildcard is applied one level up: on a request with an identity
  and no cached entry for the key, the gate returned by \<open>require(resource, action)\<close>
  lets the request through exactly when the role has a row for the resource with the
  action \<open>manage\<close> or with the requested action, and answers 403 otherwise.
\<close>

theorem C1_hasPermission_exact_gate_manage:
  "(hasPermission perms roleId resource action \<longleftrightarrow>
      (\<exists>p\<in>set perms. p_roleId p = roleId \<and> p_resource p = resource \<and> p_action p = action))
   \<and> (req_user req = Some u \<longrightarrow>
        cacheOf req (cacheKey resource action (au_roleId u)) = None \<longrightarrow>
        fst (require (roleService perms) resource action req) =
          (if \<exists>p\<in>set perms. p_roleId p = au_roleId u \<and> p_resource p = resource
                 \<and> (p_action p = ''manage'' \<or> p_action p = action)
           then Next else Respond (jsonError 403 ''Insufficient permissions'')))"
proof (intro conjI impI)
  show "hasPermission perms roleId resource action \<longleftrightarrow>
      (\<exists>p\<in>set perms. p_roleId p = roleId \<and> p_resource p = resource \<and> p_action p = action)"
    by (rule hasPermission_iff)
next
  assume u: "req_user req = Some u"
    and miss: "cacheOf req (cacheKey resource action (au_roleId u)) = None"
  have "(hasPermission perms (au_roleId u) resource ''manage''
             \<or> hasPermission perms (au_roleId u) resource action)
        = (\<exists>p\<in>set perms. p_roleId p = au_roleId u \<and> p_resource p = resource
                 \<and> (p_action p = ''manage'' \<or> p_action p = action))"
    unfolding hasPermission_iff by blast
  with require_miss [OF u miss, of perms]
  show "fst (require (roleService perms) resource action req) =
          (if \<exists>p\<in>set perms. p_roleId p = au_roleId u \<and> p_resource p = resource
                 \<and> (p_action p = ''manage'' \<or> p_action p = action)
           then Next else Respond (jsonError 403 ''Insufficient permissions''))"
    by simp
qed

text \<open>
  The theorem at role \<open>r2\<close>, which holds only \<open>(client, manage)\<close>: the resolver denies
  \<open>(client, delete)\<close>, the gate lets the request through.
\<close>

theorem C1_hasPermission_exact_gate_manage_witness:
  "\<not> hasPermission exPerms ''r2'' ''client'' ''delete''
   \<and> fst (require (roleService exPerms) ''client'' ''delete'' (exAuthRequest ''r2'')) = Next"
  using C1_hasPermission_exact_gate_manage
          [of exPerms "''r2''" "''client''" "''delete''" "exAuthRequest ''r2''" "exIdentity ''r2''"]
  by (simp add: ex_defs cacheOf_def)

text \<open>
  C1 as stated fails: with only a \<open>(client, manage)\<close> row for role \<open>R\<close>,
  \<open>hasPermission(R, client, delete)\<close> is false.
\<close>

theorem C1_hasPermission_manage_counterexample:
  "\<lparr>p_roleId = ''R'', p_resource = ''client'', p_action = ''manage''\<rparr>
     \<in> set [\<lparr>p_roleId = ''R'', p_resource = ''client'', p_action = ''manage''\<rparr>]
   \<and> \<not> hasPermission [\<lparr>p_roleId = ''R'', p_resource = ''client'', p_action = ''manage''\<rparr>]
          ''R'' ''client'' ''delete''"
  by (simp add: hasPermission_def)

text \<open>
  C9. Within one request, once a check for \<open>(resource, action)\<close> has ended in an
  allow or deny decision, a second check for the same pair (the role is that of the
  request) sends no query to the role service, whatever the role service would now say,
  and ends in the same decision, leaving the request as it is. A check for another
  action on that resource, not cached before, still misses the cache after the first
  check and goes to the role service again: it asks for \<open>manage\<close>, then (unless
  \<open>manage\<close> is granted or the call fails) for the action itself, and its outcome is
  what the role service answers: \<open>next()\<close> when it grants \<open>manage\<close> or the action,
  403 when it grants neither, 500 when a call fails; the decision is cached under the
  key of that other action.
\<close>

theorem C9_request_cache:
  assumes "require rs resource action req = (r1, req1, qs1)"
  shows "(decided r1 \<longrightarrow> require rs' resource action req1 = (r1, req1, []))
       \<and> (\<forall>u action'. req_user req = Some u \<and> action' \<noteq> action
              \<and> cacheOf req (cacheKey resource action' (au_roleId u)) = None \<longrightarrow>
            require rs' resource action' req1 =
              (case rs' (au_roleId u) resource ''manage'' of
                 Inl e \<Rightarrow>
                   (Respond (jsonError 500 (errorMessage e ''Permission check failed'')), req1,
                    [(au_roleId u, resource, ''manage'')])
               | Inr m \<Rightarrow>
                   if m
                   then (Next,
                         req1\<lparr>req_permissionCache :=
                                Some ((cacheOf req1)
                                        (cacheKey resource action' (au_roleId u) \<mapsto> True))\<rparr>,
                         [(au_roleId u, resource, ''manage'')])
                   else
                     (case rs' (au_roleId u) resource action' of
                        Inl e \<Rightarrow>
                          (Respond (jsonError 500 (errorMessage e ''Permission check failed'')),
                           req1,
                           [(au_roleId u, resource, ''manage''),
                            (au_roleId u, resource, action')])
                      | Inr b \<Rightarrow>
                          (if b then Next
                           else Respond (jsonError 403 ''Insufficient permissions''),
                           req1\<lparr>req_permissionCache :=
                                  Some ((cacheOf req1)
                                          (cacheKey resource action' (au_roleId u) \<mapsto> b))\<rparr>,
                           [(au_roleId u, resource, ''manage''),
                            (au_roleId u, resource, action')]))))"
proof (intro conjI allI impI)
  assume "decided r1"
  with require_hit [OF assms] show "require rs' resource action req1 = (r1, req1, [])" .
next
  fix u action'
  assume h: "req_user req = Some u \<and> action' \<noteq> action
              \<and> cacheOf req (cacheKey resource action' (au_roleId u)) = None"
  then have u: "req_user req = Some u" and ne: "action' \<noteq> action"
    and miss: "cacheOf req (cacheKey resource action' (au_roleId u)) = None"
    by simp_all
  from require_other_action [OF assms u ne miss, of rs']
  show "require rs' resource action' req1 =
              (case rs' (au_roleId u) resource ''manage'' of
                 Inl e \<Rightarrow>
                   (Respond (jsonError 500 (errorMessage e ''Permission check failed'')), req1,
                    [(au_roleId u, resource, ''manage'')])
               | Inr m \<Rightarrow>
                   if m
                   then (Next,
                         req1\<lparr>req_permissionCache :=
                                Some ((cacheOf req1)
                                        (cacheKey resource action' (au_roleId u) \<mapsto> True))\<rparr>,
                         [(au_roleId u, resource, ''manage'')])
                   else
                     (case rs' (au_roleId u) resource action' of
                        Inl e \<Rightarrow>
                          (Respond (jsonError 500 (errorMessage e ''Permission check failed'')),
                           req1,
                           [(au_roleId u, resource, ''manage''),
                            (au_roleId u, resource, action')])
                      | Inr b \<Rightarrow>
                          (if b then Next
                           else Respond (jsonError 403 ''Insufficient permissions''),
                           req1\<lparr>req_permissionCache :=
                                  Some ((cacheOf req1)
                                          (cacheKey resource action' (au_roleId u) \<mapsto> b))\<rparr>,
                           [(au_roleId u, resource, ''manage''),
                            (au_roleId u, resource, action')])))" .
qed

text \<open>
  The theorem on a fresh request of role \<open>r1\<close>, which holds \<open>(client, read)\<close>: the
  first check asks the role service twice and allows; the second asks nothing, even of
  a role service that rejects every call; a check for \<open>delete\<close> asks the role service
  for \<open>manage\<close> and for \<open>delete\<close>, is denied and cached as denied, and answers 500
  when the role service rejects the call.
\<close>

theorem C9_request_cache_witness:
  "require (roleService exPerms) ''client'' ''read'' (exAuthRequest ''r1'') =
     (Next,
      (exAuthRequest ''r1'')\<lparr>req_permissionCache := Some [''client:read:r1'' \<mapsto> True]\<rparr>,
      [(''r1'', ''client'', ''manage''), (''r1'', ''client'', ''read'')])
   \<and> require (\<lambda>roleId resource action. Inl NonError) ''client'' ''read''
        ((exAuthRequest ''r1'')\<lparr>req_permissionCache := Some [''client:read:r1'' \<mapsto> True]\<rparr>) =
       (Next,
        (exAuthRequest ''r1'')\<lparr>req_permissionCache := Some [''client:read:r1'' \<mapsto> True]\<rparr>, [])
   \<and> require (roleService exPerms) ''client'' ''delete''
        ((exAuthRequest ''r1'')\<lparr>req_permissionCache := Some [''client:read:r1'' \<mapsto> True]\<rparr>) =
       (Respond (jsonError 403 ''Insufficient permissions''),
        (exAuthRequest ''r1'')\<lparr>req_permissionCache :=
           Some [''client:read:r1'' \<mapsto> True, ''client:delete:r1'' \<mapsto> False]\<rparr>,
        [(''r1'', ''client'', ''manage''), (''r1'', ''client'', ''delete'')])
   \<and> require (\<lambda>roleId resource action. Inl NonError) ''client'' ''delete''
        ((exAuthRequest ''r1'')\<lparr>req_permissionCache := Some [''client:read:r1'' \<mapsto> True]\<rparr>) =
       (Respond (jsonError 500 ''Permission check failed''),
        (exAuthRequest ''r1'')\<lparr>req_permissionCache := Some [''client:read:r1'' \<mapsto> True]\<rparr>,
        [(''r1'', ''client'', ''manage'')])"
proof -
  let ?req1 = "(exAuthRequest ''r1'')\<lparr>req_permissionCache := Some [''client:read:r1'' \<mapsto> True]\<rparr>"
  have first: "require (roleService exPerms) ''client'' ''read'' (exAuthRequest ''r1'') =
     (Next, ?req1, [(''r1'', ''client'', ''manage''), (''r1'', ''client'', ''read'')])"
    by (simp add: require_def roleService_def hasPermission_def cacheOf_def cacheKey_def ex_defs)
  have fresh: "req_user (exAuthRequest ''r1'') = Some (exIdentity ''r1'')
      \<and> ''delete'' \<noteq> ''read''
      \<and> cacheOf (exAuthRequest ''r1'') (cacheKey ''client'' ''delete'' (au_roleId (exIdentity ''r1'')))
          = None"
    by (simp add: cacheOf_def ex_defs)
  from C9_request_cache [OF first, of "\<lambda>roleId resource action. Inl NonError"] fresh
  have a: "require (\<lambda>roleId resource action. Inl NonError) ''client'' ''read'' ?req1
             = (Next, ?req1, [])"
    and c: "require (\<lambda>roleId resource action. Inl NonError) ''client'' ''delete'' ?req1 =
       (Respond (jsonError 500 ''Permission check failed''), ?req1,
        [(''r1'', ''client'', ''manage'')])"
    by (simp_all add: decided_def exIdentity_def errorMessage_def)
  from C9_request_cache [OF first, of "roleService exPerms"] fresh
  have b: "require (roleService exPerms) ''client'' ''delete'' ?req1 =
       (Respond (jsonError 403 ''Insufficient permissions''),
        (exAuthRequest ''r1'')\<lparr>req_permissionCache :=
           Some [''client:read:r1'' \<mapsto> True, ''client:delete:r1'' \<mapsto> False]\<rparr>,
        [(''r1'', ''client'', ''manage''), (''r1'', ''client'', ''delete'')])"
    by (simp add: roleService_def hasPermission_def cacheKey_def exIdentity_def exPerms_def)
  from first a b c show ?thesis by simp
qed

section \<open>Access-token validation and the authentication gate\<close>

lemma find_Some_mem: "find P xs = Some x \<Longrightarrow> x \<in> set xs \<and> P x"
  by (auto simp: find_Some_iff)

lemma find_None_ball: "(find P xs = None) = (\<forall>x\<in>set xs. \<not> P x)"
  by (auto simp: find_None_iff)

text \<open>
  C4, as the code has it. \<open>validateAccessToken\<close> runs four checks in this order and
  fails at the first that does not pass:
  \<^enum> the codec verifies the token with the access secret, else
    \<open>Invalid or expired access token\<close>;
  \<^enum> the decoded payload carries a string id, else \<open>Invalid token payload\<close>;
  \<^enum> the ledger has a row with this token string, type \<open>access_token\<close>, not revoked,
    expiring after now, else \<open>Invalid or revoked access token\<close>;
  \<^enum> a user with the payload's id exists with status ACTIVE and no deletion date, and
    its role exists, else \<open>User not found or inactive\<close>.
  When all pass, the result is the identity of that user: id, email, role id, role name.
\<close>

theorem C4_validateAccessToken_checks:
  "(verifyToken ext tc now tok False = None \<longrightarrow>
      validateAccessToken ext tc now d tok = Inl (Error ''Invalid or expired access token''))
   \<and> (\<forall>payload. verifyToken ext tc now tok False = Some payload \<longrightarrow>
        (jp_id payload = None \<longrightarrow>
           validateAccessToken ext tc now d tok = Inl (Error ''Invalid token payload''))
        \<and> (\<forall>uid. jp_id payload = Some uid \<longrightarrow>
             (if \<not> (\<exists>t\<in>set (tokens d). t_token t = tok \<and> t_type t = access_token
                        \<and> \<not> t_isRevoked t \<and> now < t_expiresAt t)
              then validateAccessToken ext tc now d tok
                     = Inl (Error ''Invalid or revoked access token'')
              else if \<not> (\<exists>u\<in>set (users d). u_id u = uid \<and> u_status u = ''ACTIVE''
                             \<and> u_deletedAt u = None)
              then validateAccessToken ext tc now d tok = Inl (Error ''User not found or inactive'')
              else (\<exists>u. findActiveUserById d uid = Some u \<and> u \<in> set (users d) \<and> u_id u = uid
                        \<and> u_status u = ''ACTIVE'' \<and> u_deletedAt u = None
                        \<and> (if \<not> (\<exists>r\<in>set (roles d). r_id r = u_roleId u)
                            then validateAccessToken ext tc now d tok
                                   = Inl (Error ''User not found or inactive'')
                            else (\<exists>r\<in>set (roles d). r_id r = u_roleId u
                                   \<and> validateAccessToken ext tc now d tok
                                       = Inr \<lparr>au_id = uid, au_email = u_email u,
                                              au_roleId = u_roleId u, au_roleName = r_name r\<rparr>))))))"
proof (intro conjI allI impI)
  assume "verifyToken ext tc now tok False = None"
  then show "validateAccessToken ext tc now d tok = Inl (Error ''Invalid or expired access token'')"
    by (simp add: validateAccessToken_def)
next
  fix payload
  assume "verifyToken ext tc now tok False = Some payload" "jp_id payload = None"
  then show "validateAccessToken ext tc now d tok = Inl (Error ''Invalid token payload'')"
    by (simp add: validateAccessToken_def)
next
  fix payload uid
  assume v: "verifyToken ext tc now tok False = Some payload" and i: "jp_id payload = Some uid"
  let ?L = "\<lambda>t. t_token t = tok \<and> t_type t = access_token \<and> \<not> t_isRevoked t \<and> now < t_expiresAt t"
  let ?U = "\<lambda>u. u_id u = uid \<and> u_status u = ''ACTIVE'' \<and> u_deletedAt u = None"
  show "if \<not> (\<exists>t\<in>set (tokens d). ?L t)
        then validateAccessToken ext tc now d tok = Inl (Error ''Invalid or revoked access token'')
        else if \<not> (\<exists>u\<in>set (users d). ?U u)
        then validateAccessToken ext tc now d tok = Inl (Error ''User not found or inactive'')
        else (\<exists>u. findActiveUserById d uid = Some u \<and> u \<in> set (users d) \<and> u_id u = uid
                  \<and> u_status u = ''ACTIVE'' \<and> u_deletedAt u = None
                  \<and> (if \<not> (\<exists>r\<in>set (roles d). r_id r = u_roleId u)
                      then validateAccessToken ext tc now d tok
                             = Inl (Error ''User not found or inactive'')
                      else (\<exists>r\<in>set (roles d). r_id r = u_roleId u
                             \<and> validateAccessToken ext tc now d tok
                                 = Inr \<lparr>au_id = uid, au_email = u_email u,
                                        au_roleId = u_roleId u, au_roleName = r_name r\<rparr>)))"
  proof (cases "find ?L (tokens d)")
    case None
    then have "\<not> (\<exists>t\<in>set (tokens d). ?L t)" by (simp add: find_None_ball)
    moreover from None v i
    have "validateAccessToken ext tc now d tok = Inl (Error ''Invalid or revoked access token'')"
      by (simp add: validateAccessToken_def)
    ultimately show ?thesis by simp
  next
    case (Some row)
    then have ex: "\<exists>t\<in>set (tokens d). ?L t" using find_Some_mem [OF Some] by blast
    show ?thesis
    proof (cases "findActiveUserById d uid")
      case None
      then have "\<not> (\<exists>u\<in>set (users d). ?U u)"
        by (simp add: findActiveUserById_def find_None_ball)
      moreover from None Some v i
      have "validateAccessToken ext tc now d tok = Inl (Error ''User not found or inactive'')"
        by (simp add: validateAccessToken_def)
      ultimately show ?thesis using ex by simp
    next
      case (Some u)
      then have u: "u \<in> set (users d) \<and> ?U u"
        unfolding findActiveUserById_def by (rule find_Some_mem)
      have tail: "if \<not> (\<exists>r\<in>set (roles d). r_id r = u_roleId u)
                      then validateAccessToken ext tc now d tok
                             = Inl (Error ''User not found or inactive'')
                      else (\<exists>r\<in>set (roles d). r_id r = u_roleId u
                             \<and> validateAccessToken ext tc now d tok
                                 = Inr \<lparr>au_id = uid, au_email = u_email u,
                                        au_roleId = u_roleId u, au_roleName = r_name r\<rparr>)"
      proof (cases "roleOf d u")
        case None
        then have "\<not> (\<exists>r\<in>set (roles d). r_id r = u_roleId u)"
          by (simp add: roleOf_def find_None_ball)
        moreover from None Some \<open>find ?L (tokens d) = Some row\<close> v i
        have "validateAccessToken ext tc now d tok = Inl (Error ''User not found or inactive'')"
          by (simp add: validateAccessToken_def)
        ultimately show ?thesis by simp
      next
        case (Some r)
        then have r: "r \<in> set (roles d) \<and> r_id r = u_roleId u"
          unfolding roleOf_def by (rule find_Some_mem)
        from Some \<open>findActiveUserById d uid = Some u\<close> \<open>find ?L (tokens d) = Some row\<close> v i u
        have "validateAccessToken ext tc now d tok
                = Inr \<lparr>au_id = uid, au_email = u_email u, au_roleId = u_roleId u,
                       au_roleName = r_name r\<rparr>"
          by (simp add: validateAccessToken_def)
        with r show ?thesis by auto
      qed
      from u have "\<exists>u\<in>set (users d). ?U u" by blast
      with ex tail u Some show ?thesis by auto
    qed
  qed
qed

text \<open>
  The theorem on the example installation: the revoked token \<open>acc0\<close> passes the codec
  and the payload check and fails at the ledger; the token \<open>acc1\<close> passes all four.
\<close>

theorem C4_validateAccessToken_checks_witness:
  "validateAccessToken exExt exTc 2000 exDb ''acc0'' = Inl (Error ''Invalid or revoked access token'')
   \<and> validateAccessToken exExt exTc 2000 exDb ''acc1''
       = Inr \<lparr>au_id = ''u1'', au_email = ''ann@x.io'', au_roleId = ''r1'', au_roleName = ''Admin''\<rparr>"
proof -
  have v0: "verifyToken exExt exTc 2000 ''acc0'' False = Some exPayload"
    and v1: "verifyToken exExt exTc 2000 ''acc1'' False = Some exPayload"
    by (simp_all add: verifyToken_def ex_defs)
  have i: "jp_id exPayload = Some ''u1''" by (simp add: jp_id_def ex_defs)
  have u: "findActiveUserById exDb ''u1'' = Some exUser"
    by (simp add: findActiveUserById_def ex_defs)
  from C4_validateAccessToken_checks [of exExt exTc 2000 "''acc0''" exDb] v0 i
  have a: "validateAccessToken exExt exTc 2000 exDb ''acc0''
             = Inl (Error ''Invalid or revoked access token'')"
    by (simp add: exDb_def exToken_def)
  from C4_validateAccessToken_checks [of exExt exTc 2000 "''acc1''" exDb] v1 i u
  have b: "validateAccessToken exExt exTc 2000 exDb ''acc1''
       = Inr \<lparr>au_id = ''u1'', au_email = ''ann@x.io'', au_roleId = ''r1'', au_roleName = ''Admin''\<rparr>"
    by (simp add: exDb_def exToken_def exUser_def)
  from a b show ?thesis by simp
qed

text \<open>
  C4 as stated fails: a token that the codec accepts and the ledger holds, whose payload
  carries no string id, fails with \<open>Invalid token payload\<close>, which is none of the three
  errors of the claim.
\<close>

theorem C4_payload_error_counterexample:
  "verifyToken exExt exTc 2000 ''anon'' False
     = Some \<lparr>pl_id = JUndefined, pl_email = JUndefined, pl_roleId = JUndefined\<rparr>
   \<and> exToken 4 ''anon'' access_token 5000 \<in> set (tokens exDb)
   \<and> validateAccessToken exExt exTc 2000 exDb ''anon'' = Inl (Error ''Invalid token payload'')
   \<and> validateAccessToken exExt exTc 2000 exDb ''anon''
        \<noteq> Inl (Error ''Invalid or expired access token'')
   \<and> validateAccessToken exExt exTc 2000 exDb ''anon''
        \<noteq> Inl (Error ''Invalid or revoked access token'')
   \<and> validateAccessToken exExt exTc 2000 exDb ''anon'' \<noteq> Inl (Error ''User not found or inactive'')"
  by (simp add: validateAccessToken_def verifyToken_def jp_id_def ex_defs)

text \<open>
  C2, at two requests that fail validation for different reasons: one carries a token
  the codec rejects, the other the revoked token \<open>acc0\<close>. The authentication gate
  answers both with status 401, but puts the message of the validation error into the
  body, so the two bodies differ and the caller can tell which check failed.
\<close>

theorem C2_authenticate_bodies_differ:
  "validateAccessToken exExt exTc 2000 exDb ''junk'' = Inl (Error ''Invalid or expired access token'')
   \<and> validateAccessToken exExt exTc 2000 exDb ''acc0''
        = Inl (Error ''Invalid or revoked access token'')
   \<and> fst (authenticate (validateAccessToken exExt exTc 2000 exDb) (exRequest ''junk''))
        = Respond \<lparr>res_status = 401,
                    res_json = [(''error'', JStr ''Invalid or expired access token'')]\<rparr>
   \<and> fst (authenticate (validateAccessToken exExt exTc 2000 exDb) (exRequest ''acc0''))
        = Respond \<lparr>res_status = 401,
                    res_json = [(''error'', JStr ''Invalid or revoked access token'')]\<rparr>
   \<and> fst (authenticate (validateAccessToken exExt exTc 2000 exDb) (exRequest ''junk''))
        \<noteq> fst (authenticate (validateAccessToken exExt exTc 2000 exDb) (exRequest ''acc0''))"
  by (simp add: authenticate_def validateAccessToken_def verifyToken_def jp_id_def
        extractToken_def orNull_def trim_def isSpace_def errorMessage_def jsonError_def ex_defs)

section \<open>Login\<close>

text \<open>
  C3. A login with an email that belongs to no ACTIVE, non-deleted user, and a login
  of an ACTIVE, non-deleted user with a password that does not verify, fail with the
  same error, \<open>Invalid email or password\<close>, and leave the store untouched; the
  controller's \<open>handleError(res, error, "Authentication failed", 401)\<close> turns that
  error into status 401 with this message.
\<close>

theorem C3_login_generic_failure:
  assumes unknown: "\<not> (\<exists>u\<in>set (users d). u_email u = email \<and> u_status u = ''ACTIVE''
                          \<and> u_deletedAt u = None)"
    and known: "findActiveUserByEmail d email' = Some u"
    and wrong: "\<not> verify ext password' (u_password u)"
  shows "login ext tc cfg now d email password ip ua = (Inl (Error ''Invalid email or password''), d)
       \<and> login ext tc cfg now d email' password' ip' ua'
           = (Inl (Error ''Invalid email or password''), d)
       \<and> fst (login ext tc cfg now d email password ip ua)
           = fst (login ext tc cfg now d email' password' ip' ua')
       \<and> handleError (Error ''Invalid email or password'') ''Authentication failed'' 401
           = jsonError 401 ''Invalid email or password''"
proof -
  from unknown have "findActiveUserByEmail d email = None"
    by (simp add: findActiveUserByEmail_def find_None_ball)
  then have 1: "login ext tc cfg now d email password ip ua
                  = (Inl (Error ''Invalid email or password''), d)"
    by (simp add: login_def)
  from known wrong have 2: "login ext tc cfg now d email' password' ip' ua'
                  = (Inl (Error ''Invalid email or password''), d)"
    by (simp add: login_def)
  show ?thesis by (simp add: 1 2 handleError_def errorMessage_def)
qed

text \<open>
  The theorem on the example installation: the unknown address \<open>eve@x.io\<close>, and the
  known address \<open>ann@x.io\<close> with a wrong password.
\<close>

theorem C3_login_generic_failure_witness:
  "login exExt exTc exCfg 2000 exDb ''eve@x.io'' ''secret1'' None None
     = (Inl (Error ''Invalid email or password''), exDb)
   \<and> login exExt exTc exCfg 2000 exDb ''ann@x.io'' ''guess'' None None
     = (Inl (Error ''Invalid email or password''), exDb)"
proof -
  have a: "\<not> (\<exists>u\<in>set (users exDb). u_email u = ''eve@x.io'' \<and> u_status u = ''ACTIVE''
                          \<and> u_deletedAt u = None)"
    by (simp add: ex_defs)
  have b: "findActiveUserByEmail exDb ''ann@x.io'' = Some exUser"
    by (simp add: findActiveUserByEmail_def ex_defs)
  have c: "\<not> verify exExt ''guess'' (u_password exUser)"
    by (simp add: verify_def ex_defs)
  from C3_login_generic_failure [OF a b c, of exTc exCfg 2000 "''secret1''" None None None None]
  show ?thesis by simp
qed

section \<open>Refresh rotation\<close>

lemma refreshAccessToken_success:
  assumes ok: "refreshAccessToken ext tc cfg now d rt ip ua = (Inr newTok, d')"
  shows "\<exists>uid row.
           find (\<lambda>t. t_token t = rt \<and> ownedBy (JStr uid) t \<and> t_type t = refresh_token
                       \<and> \<not> t_isRevoked t \<and> now < t_expiresAt t) (tokens d) = Some row
         \<and> d' = token_create
                  \<lparr>t_id = 0, t_token = newTok, t_type = access_token,
                   t_userId = uid, t_expiresAt = now + accessTokenExpiresIn cfg,
                   t_isRevoked = False, t_usedAt = None,
                   t_ipAddress = orNull ip, t_userAgent = orNull ua\<rparr>
                  (token_updateMany
                     (\<lambda>t. ownedBy (JStr uid) t \<and> t_type t = access_token \<and> \<not> t_isRevoked t)
                     revoke d)"
proof (cases "verifyToken ext tc now rt True")
  case None
  with ok show ?thesis by (simp add: refreshAccessToken_def)
next
  case (Some payload)
  note v = Some
  show ?thesis
  proof (cases "jp_id payload")
    case None
    with ok v show ?thesis
      by (simp add: refreshAccessToken_def Let_def split: if_splits option.splits)
  next
    case (Some uid)
    then have p: "pl_id payload = JStr uid"
      by (simp add: jp_id_def split: jsval.splits)
    show ?thesis
    proof (cases "find (\<lambda>t. t_token t = rt \<and> ownedBy (JStr uid) t \<and> t_type t = refresh_token
                       \<and> \<not> t_isRevoked t \<and> now < t_expiresAt t) (tokens d)")
      case None
      with ok v p show ?thesis by (simp add: refreshAccessToken_def rejectedValue_def)
    next
      case (Some row)
      with ok v p \<open>jp_id payload = Some uid\<close> show ?thesis
        by (intro exI [of _ uid] exI [of _ row])
           (auto simp add: refreshAccessToken_def rejectedValue_def Let_def)
    qed
  qed
qed

text \<open>
  C5. After a successful \<open>refreshAccessToken(refreshToken)\<close> for the user \<open>uid\<close> of
  the refresh token's ledger row:
  \<^item> the ledger has one row more; every earlier row keeps its position;
  \<^item> every earlier access-token row of \<open>uid\<close> is revoked, and nothing else of it
    changes; every other earlier row, the refresh token's own row among them, is
    unchanged;
  \<^item> the new row carries the returned token, type \<open>access_token\<close>, owner \<open>uid\<close>, is not
    revoked and expires at now plus the access-token lifetime, hence is active now when
    that lifetime is positive;
  \<^item> the refresh token is still found as an active ledger row at every instant before
    its own expiry.
\<close>

theorem C5_refresh_rotation:
  assumes "refreshAccessToken ext tc cfg now d refreshToken ip ua = (Inr newTok, d')"
  shows "\<exists>uid row.
           row \<in> set (tokens d) \<and> t_token row = refreshToken \<and> t_type row = refresh_token
         \<and> t_userId row = uid \<and> \<not> t_isRevoked row \<and> now < t_expiresAt row
         \<and> length (tokens d') = Suc (length (tokens d))
         \<and> (\<forall>i<length (tokens d).
               tokens d' ! i =
                 (if t_userId (tokens d ! i) = uid \<and> t_type (tokens d ! i) = access_token
                  then (tokens d ! i)\<lparr>t_isRevoked := True\<rparr> else tokens d ! i))
         \<and> t_token (tokens d' ! length (tokens d)) = newTok
         \<and> t_type (tokens d' ! length (tokens d)) = access_token
         \<and> t_userId (tokens d' ! length (tokens d)) = uid
         \<and> \<not> t_isRevoked (tokens d' ! length (tokens d))
         \<and> t_expiresAt (tokens d' ! length (tokens d)) = now + accessTokenExpiresIn cfg
         \<and> (0 < accessTokenExpiresIn cfg \<longrightarrow> now < t_expiresAt (tokens d' ! length (tokens d)))
         \<and> row \<in> set (tokens d')
         \<and> (\<forall>later. later < t_expiresAt row \<longrightarrow>
               find (\<lambda>t. t_token t = refreshToken \<and> t_userId t = uid \<and> t_type t = refresh_token
                          \<and> \<not> t_isRevoked t \<and> later < t_expiresAt t) (tokens d') \<noteq> None)"
proof -
  from refreshAccessToken_success [OF assms] obtain uid row where
    f: "find (\<lambda>t. t_token t = refreshToken \<and> ownedBy (JStr uid) t \<and> t_type t = refresh_token
                       \<and> \<not> t_isRevoked t \<and> now < t_expiresAt t) (tokens d) = Some row"
    and d': "d' = token_create
                  \<lparr>t_id = 0, t_token = newTok, t_type = access_token,
                   t_userId = uid, t_expiresAt = now + accessTokenExpiresIn cfg,
                   t_isRevoked = False, t_usedAt = None,
                   t_ipAddress = orNull ip, t_userAgent = orNull ua\<rparr>
                  (token_updateMany
                     (\<lambda>t. ownedBy (JStr uid) t \<and> t_type t = access_token \<and> \<not> t_isRevoked t)
                     revoke d)"
    by blast
  let ?f = "\<lambda>t. if t_userId t = uid \<and> t_type t = access_token \<and> \<not> t_isRevoked t
                 then revoke t else t"
  from d' obtain new where ts: "tokens d' = map ?f (tokens d) @ [new]"
    and new: "t_token new = newTok" "t_type new = access_token" "t_userId new = uid"
      "\<not> t_isRevoked new" "t_expiresAt new = now + accessTokenExpiresIn cfg"
    by (simp add: token_create_def token_updateMany_def ownedBy_def)
  from find_Some_mem [OF f] have row: "row \<in> set (tokens d)" "t_token row = refreshToken"
    "t_type row = refresh_token" "t_userId row = uid" "\<not> t_isRevoked row" "now < t_expiresAt row"
    by (simp_all add: ownedBy_def)
  have len: "length (tokens d') = Suc (length (tokens d))" by (simp add: ts)
  have old: "\<forall>i<length (tokens d).
               tokens d' ! i =
                 (if t_userId (tokens d ! i) = uid \<and> t_type (tokens d ! i) = access_token
                  then (tokens d ! i)\<lparr>t_isRevoked := True\<rparr> else tokens d ! i)"
    by (simp add: ts nth_append revoke_def)
  have last: "tokens d' ! length (tokens d) = new" by (simp add: ts nth_append)
  have "?f row = row" using row by simp
  with row(1) have "row \<in> ?f ` set (tokens d)" by force
  then have keep: "row \<in> set (tokens d')" by (simp add: ts)
  have still: "\<forall>later. later < t_expiresAt row \<longrightarrow>
               find (\<lambda>t. t_token t = refreshToken \<and> t_userId t = uid \<and> t_type t = refresh_token
                          \<and> \<not> t_isRevoked t \<and> later < t_expiresAt t) (tokens d') \<noteq> None"
    using keep row by (auto simp: find_None_ball)
  have fresh: "0 < accessTokenExpiresIn cfg \<longrightarrow> now < t_expiresAt (tokens d' ! length (tokens d))"
    by (simp add: last new)
  from row len old last new fresh keep still show ?thesis by blast
qed

text \<open>
  The theorem on the example installation: refreshing with \<open>ref1\<close> revokes \<open>acc1\<close>,
  leaves the row of \<open>ref1\<close> as it was and appends an unrevoked row for the new token.
\<close>

theorem C5_refresh_rotation_witness:
  "fst (refreshAccessToken exExt exTc exCfg 2000 exDb ''ref1'' None None) = Inr ''acc2''
   \<and> tokens (snd (refreshAccessToken exExt exTc exCfg 2000 exDb ''ref1'' None None)) ! 1
       = (exToken 1 ''acc1'' access_token 5000)\<lparr>t_isRevoked := True\<rparr>
   \<and> tokens (snd (refreshAccessToken exExt exTc exCfg 2000 exDb ''ref1'' None None)) ! 2
       = exToken 2 ''ref1'' refresh_token 9000
   \<and> t_token (tokens (snd (refreshAccessToken exExt exTc exCfg 2000 exDb ''ref1'' None None)) ! 5)
       = ''acc2''
   \<and> \<not> t_isRevoked
          (tokens (snd (refreshAccessToken exExt exTc exCfg 2000 exDb ''ref1'' None None)) ! 5)"
proof -
  let ?d' = "snd (refreshAccessToken exExt exTc exCfg 2000 exDb ''ref1'' None None)"
  have f: "fst (refreshAccessToken exExt exTc exCfg 2000 exDb ''ref1'' None None) = Inr ''acc2''"
    by (simp add: refreshAccessToken_def verifyToken_def generateAccessToken_def ownedBy_def
          rejectedValue_def jp_id_def Let_def ex_defs)
  then have ok: "refreshAccessToken exExt exTc exCfg 2000 exDb ''ref1'' None None
                   = (Inr ''acc2'', ?d')"
    by (simp add: prod_eq_iff)
  have len: "length (tokens exDb) = 5" by (simp add: ex_defs)
  from C5_refresh_rotation [OF ok] obtain uid row where
    row: "row \<in> set (tokens exDb)" "t_token row = ''ref1''" "t_userId row = uid"
    and old: "\<forall>i<length (tokens exDb).
               tokens ?d' ! i =
                 (if t_userId (tokens exDb ! i) = uid \<and> t_type (tokens exDb ! i) = access_token
                  then (tokens exDb ! i)\<lparr>t_isRevoked := True\<rparr> else tokens exDb ! i)"
    and new: "t_token (tokens ?d' ! length (tokens exDb)) = ''acc2''"
      "\<not> t_isRevoked (tokens ?d' ! length (tokens exDb))"
    by blast
  from row have uid: "uid = ''u1''" by (auto simp: ex_defs)
  from old len have "tokens ?d' ! 1 =
                 (if t_userId (tokens exDb ! 1) = uid \<and> t_type (tokens exDb ! 1) = access_token
                  then (tokens exDb ! 1)\<lparr>t_isRevoked := True\<rparr> else tokens exDb ! 1)"
    by simp
  then have one: "tokens ?d' ! 1 = (exToken 1 ''acc1'' access_token 5000)\<lparr>t_isRevoked := True\<rparr>"
    by (simp add: uid ex_defs)
  from old len have "tokens ?d' ! 2 =
                 (if t_userId (tokens exDb ! 2) = uid \<and> t_type (tokens exDb ! 2) = access_token
                  then (tokens exDb ! 2)\<lparr>t_isRevoked := True\<rparr> else tokens exDb ! 2)"
    by simp
  then have two: "tokens ?d' ! 2 = exToken 2 ''ref1'' refresh_token 9000"
    by (simp add: uid ex_defs)
  from f one two new len show ?thesis by simp
qed

section \<open>Password reset\<close>

lemma resetPassword_success:
  assumes ok: "resetPassword ext now d tok pw ip ua = (Inr (), d')"
  shows "\<exists>row. find (\<lambda>t. t_token t = tok \<and> t_type t = reset_password \<and> \<not> t_isRevoked t
                       \<and> t_usedAt t = None \<and> now < t_expiresAt t) (tokens d) = Some row
         \<and> find (\<lambda>u. u_id u = t_userId row) (users d) \<noteq> None
         \<and> users d' = map (\<lambda>u. if u_id u = t_userId row then u\<lparr>u_password := bcryptHash ext pw\<rparr>
                                 else u) (users d)
         \<and> tokens d' =
             map (\<lambda>t. if t_userId t = t_userId row
                          \<and> (t_type t = refresh_token \<or> t_type t = access_token)
                       then revoke t else t)
               (map (\<lambda>t. if t_id t = t_id row then t\<lparr>t_usedAt := Some now, t_isRevoked := True\<rparr>
                          else t) (tokens d))"
proof (cases "find (\<lambda>t. t_token t = tok \<and> t_type t = reset_password \<and> \<not> t_isRevoked t
                       \<and> t_usedAt t = None \<and> now < t_expiresAt t) (tokens d)")
  case None
  with ok show ?thesis by (simp add: resetPassword_def resetPassword_findFirst_def)
next
  case (Some row)
  note f = Some
  show ?thesis
  proof (cases "hash ext pw")
    case (Inl e)
    with ok f show ?thesis
      by (simp add: resetPassword_def resetPassword_findFirst_def resetPassword_writes_def)
  next
    case (Inr hashed)
    then have h: "hashed = bcryptHash ext pw" by (auto simp: hash_def split: if_splits)
    from ok f Inr h show ?thesis
      by (intro exI [of _ row])
         (auto simp add: resetPassword_def resetPassword_findFirst_def resetPassword_writes_def
            Let_def user_update_def token_updateMany_def auditLog_create_def split: if_splits)
  qed
qed

text \<open>
  A call of \<open>resetPassword\<close> with nothing running between its steps. It fails with
  \<open>Invalid or expired reset token\<close>, writing nothing, when the ledger has no row for
  the token of type \<open>reset_password\<close> that is not revoked, not used and expires after
  now. When it succeeds, such a row \<open>row\<close> exists, its user exists, and afterwards
  \<^item> every user row with that id has the hash of the new password, the others are
    unchanged;
  \<^item> every ledger row with the id of \<open>row\<close> is marked used at now and revoked;
  \<^item> every access-token and refresh-token row of that user is revoked;
  \<^item> if the token string identifies one ledger row, a later call with the same token,
    started after this one has finished, fails with \<open>Invalid or expired reset token\<close>.
\<close>

lemma resetPassword_one_call_at_a_time:
  "(\<not> (\<exists>t\<in>set (tokens d). t_token t = tok \<and> t_type t = reset_password \<and> \<not> t_isRevoked t
                         \<and> t_usedAt t = None \<and> now < t_expiresAt t) \<longrightarrow>
      resetPassword ext now d tok pw ip ua = (Inl (Error ''Invalid or expired reset token''), d))
   \<and> (\<forall>d'. resetPassword ext now d tok pw ip ua = (Inr (), d') \<longrightarrow>
        (\<exists>row. row \<in> set (tokens d) \<and> t_token row = tok \<and> t_type row = reset_password
              \<and> \<not> t_isRevoked row \<and> t_usedAt row = None \<and> now < t_expiresAt row
              \<and> (\<exists>u\<in>set (users d). u_id u = t_userId row)
              \<and> length (users d') = length (users d)
              \<and> (\<forall>i<length (users d).
                    users d' ! i =
                      (if u_id (users d ! i) = t_userId row
                       then (users d ! i)\<lparr>u_password := bcryptHash ext pw\<rparr> else users d ! i))
              \<and> length (tokens d') = length (tokens d)
              \<and> (\<forall>i<length (tokens d).
                    (t_id (tokens d ! i) = t_id row \<longrightarrow>
                       t_usedAt (tokens d' ! i) = Some now \<and> t_isRevoked (tokens d' ! i))
                    \<and> (t_userId (tokens d ! i) = t_userId row
                        \<and> (t_type (tokens d ! i) = access_token
                            \<or> t_type (tokens d ! i) = refresh_token) \<longrightarrow>
                       t_isRevoked (tokens d' ! i)))
              \<and> ((\<forall>t\<in>set (tokens d). t_token t = tok \<longrightarrow> t = row) \<longrightarrow>
                   (\<forall>ext' now' pw' ip' ua'.
                      resetPassword ext' now' d' tok pw' ip' ua'
                        = (Inl (Error ''Invalid or expired reset token''), d')))))"
proof (intro conjI allI impI)
  assume "\<not> (\<exists>t\<in>set (tokens d). t_token t = tok \<and> t_type t = reset_password \<and> \<not> t_isRevoked t
                         \<and> t_usedAt t = None \<and> now < t_expiresAt t)"
  then have "find (\<lambda>t. t_token t = tok \<and> t_type t = reset_password \<and> \<not> t_isRevoked t
                       \<and> t_usedAt t = None \<and> now < t_expiresAt t) (tokens d) = None"
    by (simp add: find_None_ball)
  then show "resetPassword ext now d tok pw ip ua = (Inl (Error ''Invalid or expired reset token''), d)"
    by (simp add: resetPassword_def resetPassword_findFirst_def)
next
  fix d'
  assume ok: "resetPassword ext now d tok pw ip ua = (Inr (), d')"
  from resetPassword_success [OF ok] obtain row where
    f: "find (\<lambda>t. t_token t = tok \<and> t_type t = reset_password \<and> \<not> t_isRevoked t
                       \<and> t_usedAt t = None \<and> now < t_expiresAt t) (tokens d) = Some row"
    and usr: "find (\<lambda>u. u_id u = t_userId row) (users d) \<noteq> None"
    and us: "users d' = map (\<lambda>u. if u_id u = t_userId row then u\<lparr>u_password := bcryptHash ext pw\<rparr>
                                 else u) (users d)"
    and ts: "tokens d' =
             map (\<lambda>t. if t_userId t = t_userId row
                          \<and> (t_type t = refresh_token \<or> t_type t = access_token)
                       then revoke t else t)
               (map (\<lambda>t. if t_id t = t_id row then t\<lparr>t_usedAt := Some now, t_isRevoked := True\<rparr>
                          else t) (tokens d))"
    by blast
  from find_Some_mem [OF f] have row: "row \<in> set (tokens d)" "t_token row = tok"
    "t_type row = reset_password" "\<not> t_isRevoked row" "t_usedAt row = None" "now < t_expiresAt row"
    by simp_all
  from usr have exu: "\<exists>u\<in>set (users d). u_id u = t_userId row"
    by (auto simp: find_None_ball)
  have lu: "length (users d') = length (users d)" by (simp add: us)
  have pu: "\<forall>i<length (users d).
                    users d' ! i =
                      (if u_id (users d ! i) = t_userId row
                       then (users d ! i)\<lparr>u_password := bcryptHash ext pw\<rparr> else users d ! i)"
    by (simp add: us)
  have lt: "length (tokens d') = length (tokens d)" by (simp add: ts)
  have pt: "\<forall>i<length (tokens d).
                    (t_id (tokens d ! i) = t_id row \<longrightarrow>
                       t_usedAt (tokens d' ! i) = Some now \<and> t_isRevoked (tokens d' ! i))
                    \<and> (t_userId (tokens d ! i) = t_userId row
                        \<and> (t_type (tokens d ! i) = access_token
                            \<or> t_type (tokens d ! i) = refresh_token) \<longrightarrow>
                       t_isRevoked (tokens d' ! i))"
    by (auto simp add: ts revoke_def)
  have again: "(\<forall>t\<in>set (tokens d). t_token t = tok \<longrightarrow> t = row) \<longrightarrow>
                   (\<forall>ext' now' pw' ip' ua'.
                      resetPassword ext' now' d' tok pw' ip' ua'
                        = (Inl (Error ''Invalid or expired reset token''), d'))"
  proof (intro impI allI)
    fix ext' now' pw' ip' ua'
    assume uniq: "\<forall>t\<in>set (tokens d). t_token t = tok \<longrightarrow> t = row"
    have "\<forall>x\<in>set (tokens d'). t_token x = tok \<longrightarrow> t_isRevoked x"
      using uniq by (auto simp: ts revoke_def)
    then have "find (\<lambda>t. t_token t = tok \<and> t_type t = reset_password \<and> \<not> t_isRevoked t
                       \<and> t_usedAt t = None \<and> now' < t_expiresAt t) (tokens d') = None"
      by (auto simp: find_None_ball)
    then show "resetPassword ext' now' d' tok pw' ip' ua'
                        = (Inl (Error ''Invalid or expired reset token''), d')"
      by (simp add: resetPassword_def resetPassword_findFirst_def)
  qed
  from row exu lu pu lt pt again
  show "\<exists>row. row \<in> set (tokens d) \<and> t_token row = tok \<and> t_type row = reset_password
              \<and> \<not> t_isRevoked row \<and> t_usedAt row = None \<and> now < t_expiresAt row
              \<and> (\<exists>u\<in>set (users d). u_id u = t_userId row)
              \<and> length (users d') = length (users d)
              \<and> (\<forall>i<length (users d).
                    users d' ! i =
                      (if u_id (users d ! i) = t_userId row
                       then (users d ! i)\<lparr>u_password := bcryptHash ext pw\<rparr> else users d ! i))
              \<and> length (tokens d') = length (tokens d)
              \<and> (\<forall>i<length (tokens d).
                    (t_id (tokens d ! i) = t_id row \<longrightarrow>
                       t_usedAt (tokens d' ! i) = Some now \<and> t_isRevoked (tokens d' ! i))
                    \<and> (t_userId (tokens d ! i) = t_userId row
                        \<and> (t_type (tokens d ! i) = access_token
                            \<or> t_type (tokens d ! i) = refresh_token) \<longrightarrow>
                       t_isRevoked (tokens d' ! i)))
              \<and> ((\<forall>t\<in>set (tokens d). t_token t = tok \<longrightarrow> t = row) \<longrightarrow>
                   (\<forall>ext' now' pw' ip' ua'.
                      resetPassword ext' now' d' tok pw' ip' ua'
                        = (Inl (Error ''Invalid or expired reset token''), d')))"
    by blast
qed

text \<open>
  C6, at two calls of \<open>resetPassword\<close> for the reset token \<open>rst1\<close> that overlap: both
  run their ledger lookup (at 2000 and at 2001) before either writes, so both find the
  unused row. The writes of the first call succeed; the writes of the second call, on
  the store the first has left, succeed as well, since the update of the ledger row
  is by id alone and does not ask that the row be still unused. Both calls report
  success, where the claim allows one; the password the second call set is the one
  that stays.
\<close>

theorem C6_resetPassword_overlapping_calls_both_succeed:
  "resetPassword_findFirst 2000 exDb ''rst1'' = Some (exToken 3 ''rst1'' reset_password 5000)
   \<and> resetPassword_findFirst 2001 exDb ''rst1'' = Some (exToken 3 ''rst1'' reset_password 5000)
   \<and> fst (resetPassword_writes exExt 2000 exDb (exToken 3 ''rst1'' reset_password 5000)
             ''newpass1'' None None) = Inr ()
   \<and> fst (resetPassword_writes exExt 2001
             (snd (resetPassword_writes exExt 2000 exDb (exToken 3 ''rst1'' reset_password 5000)
                     ''newpass1'' None None))
             (exToken 3 ''rst1'' reset_password 5000) ''other123'' None None) = Inr ()
   \<and> map u_password
         (users (snd (resetPassword_writes exExt 2001
             (snd (resetPassword_writes exExt 2000 exDb (exToken 3 ''rst1'' reset_password 5000)
                     ''newpass1'' None None))
             (exToken 3 ''rst1'' reset_password 5000) ''other123'' None None)))
       = [''#other123'', ''#secret2'']"
  by (simp add: resetPassword_findFirst_def resetPassword_writes_def hash_def Let_def
        user_update_def token_updateMany_def auditLog_create_def revoke_def ex_defs)

section \<open>Logout\<close>

text \<open>
  C7, at a ledger whose refresh-token row for \<open>ref1\<close> is not revoked and expired at
  9000, with the clock at 10000. \<open>refreshAccessToken\<close> rejects the token at that
  instant, as its ledger query requires an expiry in the future; \<open>logout\<close>, whose
  query has no expiry filter and which never reads the clock, accepts it and revokes
  every row of the user.
\<close>

theorem C7_logout_accepts_expired_refresh_token:
  "exToken 2 ''ref1'' refresh_token 9000 \<in> set (tokens exDb)
   \<and> \<not> (10000 < t_expiresAt (exToken 2 ''ref1'' refresh_token 9000))
   \<and> fst (refreshAccessToken exExt exTc exCfg 10000 exDb ''ref1'' None None)
       = Inl (Error ''Refresh token not found or already revoked'')
   \<and> fst (logout exDb ''ref1'' None None) = Inr ()
   \<and> map t_isRevoked (tokens (snd (logout exDb ''ref1'' None None)))
       = [True, True, True, True, True]"
  by (simp add: logout_def refreshAccessToken_def verifyToken_def ownedBy_def
        rejectedValue_def jp_id_def token_updateMany_def auditLog_create_def revoke_def
        Let_def ex_defs)

section \<open>Forgot password\<close>

text \<open>
  C8, as the code has it. \<open>forgotPassword(email)\<close>:
  \<^item> for an email with no ACTIVE, non-deleted user it returns \<open>{ active: false }\<close> and
    leaves the ledger and the users as they are;
  \<^item> for a known user with \<open>now < lastForgotAt + forgotPasswordCooldown\<close> it returns
    \<open>{ active: true, activeDate }\<close>, the date being the formatted end of the cooldown,
    and writes nothing;
  \<^item> for a known user otherwise it appends exactly one ledger row, of type
    \<open>reset_password\<close>, for that user, expiring at now plus the reset-token lifetime,
    and sets \<open>lastForgotAt\<close> of that user to now; it then returns \<open>{ active: false }\<close>
    in development mode (no mail is sent) or when the transport accepts the reset mail,
    and throws \<open>Failed to send email to\<close> the address when the transport fails, the
    writes staying in place.
\<close>

theorem C8_forgotPassword_cases:
  "(\<not> (\<exists>u\<in>set (users d). u_email u = email \<and> u_status u = ''ACTIVE'' \<and> u_deletedAt u = None) \<longrightarrow>
      fst (forgotPassword ext cfg now uuid d email ip ua) = Inr \<lparr>active = False, activeDate = None\<rparr>
      \<and> tokens (snd (forgotPassword ext cfg now uuid d email ip ua)) = tokens d
      \<and> users (snd (forgotPassword ext cfg now uuid d email ip ua)) = users d)
   \<and> (\<forall>u l. findActiveUserByEmail d email = Some u \<and> u_lastForgotAt u = Some l
              \<and> now < l + forgotPasswordCooldown cfg \<longrightarrow>
         forgotPassword ext cfg now uuid d email ip ua
           = (Inr \<lparr>active = True,
                   activeDate = Some (formatLocal ext (l + forgotPasswordCooldown cfg))\<rparr>, d))
   \<and> (\<forall>u. findActiveUserByEmail d email = Some u
            \<and> (\<forall>l. u_lastForgotAt u = Some l \<longrightarrow> l + forgotPasswordCooldown cfg \<le> now) \<longrightarrow>
         tokens (snd (forgotPassword ext cfg now uuid d email ip ua))
           = tokens d @ [\<lparr>t_id = nextId (tokens d), t_token = uuid, t_type = reset_password,
                           t_userId = u_id u, t_expiresAt = now + resetTokenExpiresIn cfg,
                           t_isRevoked = False, t_usedAt = None,
                           t_ipAddress = ip, t_userAgent = ua\<rparr>]
         \<and> users (snd (forgotPassword ext cfg now uuid d email ip ua))
           = map (\<lambda>x. if u_id x = u_id u then x\<lparr>u_lastForgotAt := Some now\<rparr> else x) (users d)
         \<and> (development ext
              \<or> sendMail ext email ''Reset Password Request''
                   (forgotPasswordTemplate ext
                      (frontendUrl ext @ ''/reset-password?token='' @ uuid)) \<longrightarrow>
             fst (forgotPassword ext cfg now uuid d email ip ua)
               = Inr \<lparr>active = False, activeDate = None\<rparr>)
         \<and> (\<not> development ext
              \<and> \<not> sendMail ext email ''Reset Password Request''
                     (forgotPasswordTemplate ext
                        (frontendUrl ext @ ''/reset-password?token='' @ uuid)) \<longrightarrow>
             fst (forgotPassword ext cfg now uuid d email ip ua)
               = Inl (Error (''Failed to send email to '' @ email))))"
proof (intro conjI allI impI)
  assume "\<not> (\<exists>u\<in>set (users d). u_email u = email \<and> u_status u = ''ACTIVE'' \<and> u_deletedAt u = None)"
  then have n: "findActiveUserByEmail d email = None"
    by (simp add: findActiveUserByEmail_def find_None_ball)
  show "fst (forgotPassword ext cfg now uuid d email ip ua) = Inr \<lparr>active = False, activeDate = None\<rparr>"
    by (simp add: forgotPassword_def n)
  show "tokens (snd (forgotPassword ext cfg now uuid d email ip ua)) = tokens d"
    by (simp add: forgotPassword_def n auditLog_create_def)
  show "users (snd (forgotPassword ext cfg now uuid d email ip ua)) = users d"
    by (simp add: forgotPassword_def n auditLog_create_def)
next
  fix u l
  assume "findActiveUserByEmail d email = Some u \<and> u_lastForgotAt u = Some l
              \<and> now < l + forgotPasswordCooldown cfg"
  then show "forgotPassword ext cfg now uuid d email ip ua
           = (Inr \<lparr>active = True,
                   activeDate = Some (formatLocal ext (l + forgotPasswordCooldown cfg))\<rparr>, d)"
    by (simp add: forgotPassword_def)
next
  fix u
  assume a: "findActiveUserByEmail d email = Some u
            \<and> (\<forall>l. u_lastForgotAt u = Some l \<longrightarrow> l + forgotPasswordCooldown cfg \<le> now)"
  then have f: "findActiveUserByEmail d email = Some u" by simp
  from a have c: "(case (case u_lastForgotAt u of None \<Rightarrow> None
                          | Some l \<Rightarrow> Some (l + forgotPasswordCooldown cfg)) of
                     None \<Rightarrow> None
                   | Some ce \<Rightarrow> if now < ce then Some ce else None) = None"
    by (cases "u_lastForgotAt u") auto
  show "tokens (snd (forgotPassword ext cfg now uuid d email ip ua))
           = tokens d @ [\<lparr>t_id = nextId (tokens d), t_token = uuid, t_type = reset_password,
                           t_userId = u_id u, t_expiresAt = now + resetTokenExpiresIn cfg,
                           t_isRevoked = False, t_usedAt = None,
                           t_ipAddress = ip, t_userAgent = ua\<rparr>]"
    by (simp add: forgotPassword_def f c Let_def token_create_def user_update_def
          auditLog_create_def split: sum.splits)
  show "users (snd (forgotPassword ext cfg now uuid d email ip ua))
           = map (\<lambda>x. if u_id x = u_id u then x\<lparr>u_lastForgotAt := Some now\<rparr> else x) (users d)"
    by (simp add: forgotPassword_def f c Let_def token_create_def user_update_def
          auditLog_create_def split: sum.splits)
  assume "development ext
              \<or> sendMail ext email ''Reset Password Request''
                   (forgotPasswordTemplate ext
                      (frontendUrl ext @ ''/reset-password?token='' @ uuid))"
  then show "fst (forgotPassword ext cfg now uuid d email ip ua)
               = Inr \<lparr>active = False, activeDate = None\<rparr>"
    by (auto simp add: forgotPassword_def f c Let_def send_def)
next
  fix u
  assume a: "findActiveUserByEmail d email = Some u
            \<and> (\<forall>l. u_lastForgotAt u = Some l \<longrightarrow> l + forgotPasswordCooldown cfg \<le> now)"
  then have f: "findActiveUserByEmail d email = Some u" by simp
  from a have c: "(case (case u_lastForgotAt u of None \<Rightarrow> None
                          | Some l \<Rightarrow> Some (l + forgotPasswordCooldown cfg)) of
                     None \<Rightarrow> None
                   | Some ce \<Rightarrow> if now < ce then Some ce else None) = None"
    by (cases "u_lastForgotAt u") auto
  assume "\<not> development ext
              \<and> \<not> sendMail ext email ''Reset Password Request''
                     (forgotPasswordTemplate ext
                        (frontendUrl ext @ ''/reset-password?token='' @ uuid))"
  then show "fst (forgotPassword ext cfg now uuid d email ip ua)
               = Inl (Error (''Failed to send email to '' @ email))"
    by (simp add: forgotPassword_def f c Let_def send_def)
qed

text \<open>
  The theorem on the example installation: an unknown address; the user \<open>u1\<close>, who
  asked at 1000, inside the cooldown of 120000 ms at 2000 and outside it at 200000.
\<close>

theorem C8_forgotPassword_cases_witness:
  "fst (forgotPassword exExt exCfg 2000 ''9f1c'' exDb ''eve@x.io'' None None)
     = Inr \<lparr>active = False, activeDate = None\<rparr>
   \<and> tokens (snd (forgotPassword exExt exCfg 2000 ''9f1c'' exDb ''eve@x.io'' None None))
       = tokens exDb
   \<and> forgotPassword exExt exCfg 2000 ''9f1c'' exDb ''ann@x.io'' None None
       = (Inr \<lparr>active = True, activeDate = Some ''local''\<rparr>, exDb)
   \<and> fst (forgotPassword exExt exCfg 200000 ''9f1c'' exDb ''ann@x.io'' None None)
       = Inr \<lparr>active = False, activeDate = None\<rparr>
   \<and> tokens (snd (forgotPassword exExt exCfg 200000 ''9f1c'' exDb ''ann@x.io'' None None))
       = tokens exDb @ [(exToken 5 ''9f1c'' reset_password 320000)]
   \<and> map u_lastForgotAt
        (users (snd (forgotPassword exExt exCfg 200000 ''9f1c'' exDb ''ann@x.io'' None None)))
       = [Some 200000, None]"
proof -
  have ann: "findActiveUserByEmail exDb ''ann@x.io'' = Some exUser"
    by (simp add: findActiveUserByEmail_def ex_defs)
  have eve: "\<not> (\<exists>u\<in>set (users exDb). u_email u = ''eve@x.io'' \<and> u_status u = ''ACTIVE''
                  \<and> u_deletedAt u = None)"
    by (simp add: ex_defs)
  from C8_forgotPassword_cases [of exDb "''eve@x.io''" exExt exCfg 2000 "''9f1c''" None None] eve
  have a: "fst (forgotPassword exExt exCfg 2000 ''9f1c'' exDb ''eve@x.io'' None None)
     = Inr \<lparr>active = False, activeDate = None\<rparr>
   \<and> tokens (snd (forgotPassword exExt exCfg 2000 ''9f1c'' exDb ''eve@x.io'' None None))
       = tokens exDb"
    by blast
  have "u_lastForgotAt exUser = Some 1000 \<and> (2000::int) < 1000 + forgotPasswordCooldown exCfg"
    by (simp add: ex_defs)
  with C8_forgotPassword_cases [of exDb "''ann@x.io''" exExt exCfg 2000 "''9f1c''" None None] ann
  have "forgotPassword exExt exCfg 2000 ''9f1c'' exDb ''ann@x.io'' None None
       = (Inr \<lparr>active = True,
               activeDate = Some (formatLocal exExt (1000 + forgotPasswordCooldown exCfg))\<rparr>, exDb)"
    by blast
  then have b: "forgotPassword exExt exCfg 2000 ''9f1c'' exDb ''ann@x.io'' None None
       = (Inr \<lparr>active = True, activeDate = Some ''local''\<rparr>, exDb)"
    by (simp add: exExt_def)
  have late: "\<forall>l. u_lastForgotAt exUser = Some l \<longrightarrow> l + forgotPasswordCooldown exCfg \<le> 200000"
    and mail: "sendMail exExt ''ann@x.io'' ''Reset Password Request''
                   (forgotPasswordTemplate exExt
                      (frontendUrl exExt @ ''/reset-password?token='' @ ''9f1c''))"
    by (simp_all add: ex_defs)
  with C8_forgotPassword_cases [of exDb "''ann@x.io''" exExt exCfg 200000 "''9f1c''" None None] ann
  have "tokens (snd (forgotPassword exExt exCfg 200000 ''9f1c'' exDb ''ann@x.io'' None None))
           = tokens exDb @ [\<lparr>t_id = nextId (tokens exDb), t_token = ''9f1c'',
                           t_type = reset_password,
                           t_userId = u_id exUser, t_expiresAt = 200000 + resetTokenExpiresIn exCfg,
                           t_isRevoked = False, t_usedAt = None,
                           t_ipAddress = None, t_userAgent = None\<rparr>]
         \<and> users (snd (forgotPassword exExt exCfg 200000 ''9f1c'' exDb ''ann@x.io'' None None))
           = map (\<lambda>x. if u_id x = u_id exUser then x\<lparr>u_lastForgotAt := Some 200000\<rparr> else x)
               (users exDb)
         \<and> fst (forgotPassword exExt exCfg 200000 ''9f1c'' exDb ''ann@x.io'' None None)
               = Inr \<lparr>active = False, activeDate = None\<rparr>"
    by blast
  then have c: "fst (forgotPassword exExt exCfg 200000 ''9f1c'' exDb ''ann@x.io'' None None)
       = Inr \<lparr>active = False, activeDate = None\<rparr>
   \<and> tokens (snd (forgotPassword exExt exCfg 200000 ''9f1c'' exDb ''ann@x.io'' None None))
       = tokens exDb @ [(exToken 5 ''9f1c'' reset_password 320000)]
   \<and> map u_lastForgotAt
        (users (snd (forgotPassword exExt exCfg 200000 ''9f1c'' exDb ''ann@x.io'' None None)))
       = [Some 200000, None]"
    by (simp add: ex_defs)
  from a b c show ?thesis by simp
qed

text \<open>
  C8 as stated fails in its third case: for the known user \<open>u2\<close>, who has never asked
  before, with a mail transport that fails for the address, \<open>forgotPassword\<close> writes
  the ledger row and then throws instead of returning \<open>{ active: false }\<close>.
\<close>

theorem C8_mail_failure_counterexample:
  "findActiveUserByEmail exDb ''bob@x.io'' = Some exBob
   \<and> u_lastForgotAt exBob = None
   \<and> fst (forgotPassword exExt exCfg 2000 ''9f1c'' exDb ''bob@x.io'' None None)
       = Inl (Error ''Failed to send email to bob@x.io'')
   \<and> fst (forgotPassword exExt exCfg 2000 ''9f1c'' exDb ''bob@x.io'' None None)
       \<noteq> Inr \<lparr>active = False, activeDate = None\<rparr>
   \<and> tokens (snd (forgotPassword exExt exCfg 2000 ''9f1c'' exDb ''bob@x.io'' None None))
       = tokens exDb @ [(exToken 5 ''9f1c'' reset_password 122000)\<lparr>t_userId := ''u2''\<rparr>]"
  by (simp add: forgotPassword_def findActiveUserByEmail_def send_def Let_def token_create_def
        user_update_def auditLog_create_def ex_defs)

section \<open>The forgot-password endpoint\<close>

text \<open>
  C10. For a request whose body carries an email that passes the handler's guard (a
  non-empty string; an empty string counts as no email there), the forgot-password
  endpoint answers with status 200 and the uniform message, whatever the service does:
  when \<open>authService.forgotPassword\<close> throws, whatever it throws, the answer is
  status 200 with the body \<open>{ active: false, message }\<close>.
\<close>

theorem C10_forgotPassword_always_200:
  assumes "req_body req = Some body" and "map_of body ''email'' = Some (JStr email)"
    and "email \<noteq> []"
  shows "res_status (fst (forgotPasswordHandler svc st req)) = 200
       \<and> map_of (res_json (fst (forgotPasswordHandler svc st req))) ''message''
           = Some (JStr uniformMessage)
       \<and> (\<forall>e st'. svc email (Some (getClientIp req))
                     (Some (case orNull (map_of (req_headers req) ''user-agent'') of
                              None \<Rightarrow> [] | Some ua \<Rightarrow> ua)) st = (Inl e, st') \<longrightarrow>
            forgotPasswordHandler svc st req =
              (\<lparr>res_status = 200,
                res_json = [(''active'', JBool False), (''message'', JStr uniformMessage)]\<rparr>, st'))"
proof -
  let ?call = "svc email (Some (getClientIp req))
                     (Some (case orNull (map_of (req_headers req) ''user-agent'') of
                              None \<Rightarrow> [] | Some ua \<Rightarrow> ua)) st"
  obtain out st' where call: "?call = (out, st')" by (cases ?call)
  show ?thesis
  proof (cases out)
    case (Inl e)
    with assms call show ?thesis by (simp add: forgotPasswordHandler_def Let_def)
  next
    case (Inr r)
    with assms call show ?thesis
      by (simp add: forgotPasswordHandler_def Let_def split: option.splits)
  qed
qed

text \<open>
  The theorem on the example installation, with the service of this development: for
  the user \<open>u2\<close> the reset mail cannot be sent, the service throws, and the endpoint
  answers 200.
\<close>

theorem C10_forgotPassword_always_200_witness:
  "fst (forgotPassword exExt exCfg 2000 ''9f1c'' exDb ''bob@x.io'' (Some ''10.0.0.7'') (Some ''curl''))
     = Inl (Error ''Failed to send email to bob@x.io'')
   \<and> fst (forgotPasswordHandler
            (\<lambda>email ip ua d. forgotPassword exExt exCfg 2000 ''9f1c'' d email ip ua) exDb
            (exForgotRequest ''bob@x.io''))
       = \<lparr>res_status = 200,
          res_json = [(''active'', JBool False),
                      (''message'',
                       JStr ''If your email is registered, you will receive a password reset link.'')]\<rparr>"
proof -
  let ?svc = "\<lambda>email ip ua d. forgotPassword exExt exCfg 2000 ''9f1c'' d email ip ua"
  have b: "req_body (exForgotRequest ''bob@x.io'') = Some [(''email'', JStr ''bob@x.io'')]"
    and m: "map_of [(''email'', JStr ''bob@x.io'')] ''email'' = Some (JStr ''bob@x.io'')"
    and n: "''bob@x.io'' \<noteq> []"
    by (simp_all add: ex_defs)
  have ip: "getClientIp (exForgotRequest ''bob@x.io'') = ''10.0.0.7''"
    and ua: "(case orNull (map_of (req_headers (exForgotRequest ''bob@x.io'')) ''user-agent'') of
                None \<Rightarrow> [] | Some ua \<Rightarrow> ua) = ''curl''"
    by (simp_all add: getClientIp_def orNull_def ex_defs)
  have thrown: "fst (?svc ''bob@x.io'' (Some ''10.0.0.7'') (Some ''curl'') exDb)
                  = Inl (Error ''Failed to send email to bob@x.io'')"
    by (simp add: forgotPassword_def findActiveUserByEmail_def send_def Let_def ex_defs)
  then have call: "?svc ''bob@x.io'' (Some (getClientIp (exForgotRequest ''bob@x.io'')))
                     (Some (case orNull (map_of (req_headers (exForgotRequest ''bob@x.io''))
                                           ''user-agent'') of
                              None \<Rightarrow> [] | Some ua \<Rightarrow> ua)) exDb
                   = (Inl (Error ''Failed to send email to bob@x.io''),
                      snd (?svc ''bob@x.io'' (Some ''10.0.0.7'') (Some ''curl'') exDb))"
    by (simp add: ip ua prod_eq_iff)
  from C10_forgotPassword_always_200 [OF b m n, of ?svc exDb] call
  have "forgotPasswordHandler ?svc exDb (exForgotRequest ''bob@x.io'') =
          (\<lparr>res_status = 200,
            res_json = [(''active'', JBool False), (''message'', JStr uniformMessage)]\<rparr>,
           snd (?svc ''bob@x.io'' (Some ''10.0.0.7'') (Some ''curl'') exDb))"
    by blast
  with thrown show ?thesis by (simp add: uniformMessage_def)
qed

end
